theory Spec2Isabelle
  imports Complex_Main "HOL-Library.AList"
begin

section \<open>Numbers\<close>

text \<open>
  The sources compute in \<^verbatim>\<open>float64\<close>. The model computes in \<^typ>\<open>real\<close>: values are
  finite and arithmetic is exact (no rounding, no overflow, no signed zeros). The one place
  where the special values of IEEE arithmetic decide a branch is a quotient whose denominator
  the source does not guard (the trust ratio of \<^verbatim>\<open>Adjust\<close>, the relative improvement of
  \<^verbatim>\<open>converging\<close>); such a quotient is a \<open>quotient\<close>, with the IEEE results of a division
  by zero, and the comparisons of the source on it are \<open>flt\<close> and \<open>fgt\<close> (every comparison
  with NaN is false). \<open>fdiv\<close> divides by a zero that is \<^verbatim>\<open>+0\<close>, so that an infinite
  quotient has the sign of the numerator. In both places the denominator is a difference
  \<^verbatim>\<open>x - y\<close>, and a zero difference is \<^verbatim>\<open>+0\<close> but for \<^verbatim>\<open>-0.0 - 0.0\<close>, which is
  \<^verbatim>\<open>-0.0\<close>: where both operands are zero and the numerator is not, the sign of the
  quotient hangs on the signs of the zeros, which the model does not have, and the model
  gives no answer there (see \<open>converging\<close>; in \<^verbatim>\<open>Adjust\<close> the numerator is always zero).
\<close>

datatype quotient = Fin real | PosInf | NegInf | NaN

definition fdiv :: "real \<Rightarrow> real \<Rightarrow> quotient" where
  "fdiv a b = (if b \<noteq> 0 then Fin (a / b)
               else if a = 0 then NaN
               else if 0 < a then PosInf else NegInf)"

fun flt :: "quotient \<Rightarrow> real \<Rightarrow> bool" where
  "flt (Fin x) t = (x < t)"
| "flt PosInf t = False"
| "flt NegInf t = True"
| "flt NaN t = False"

fun fgt :: "quotient \<Rightarrow> real \<Rightarrow> bool" where
  "fgt (Fin x) t = (x > t)"
| "fgt PosInf t = True"
| "fgt NegInf t = False"
| "fgt NaN t = False"

section \<open>Parameter deltas\<close>

text \<open>
  A \<^verbatim>\<open>*autofunc.Variable\<close> is a pointer; its identity is a number and its vector lives in
  the store \<open>Vars\<close>. A \<^verbatim>\<open>ConstParamDelta\<close> is a Go map from variables to vectors: an
  association list, ranged over in list order.
\<close>

type_synonym Vector = "real list"
type_synonym Variable = nat
type_synonym ConstParamDelta = "(Variable \<times> Vector) list"
type_synonym Vars = "Variable \<Rightarrow> Vector"

text \<open>
  \<^verbatim>\<open>for i, x := range subDelta { resVec[i] += scaler * x }\<close>: an index beyond
  \<open>resVec\<close> panics (\<open>None\<close>).
\<close>

fun addScaled :: "real \<Rightarrow> Vector \<Rightarrow> Vector \<Rightarrow> Vector option" where
  "addScaled scaler resVec [] = Some resVec"
| "addScaled scaler [] (x # xs) = None"
| "addScaled scaler (r # rs) (x # xs) =
     (case addScaled scaler rs xs of None \<Rightarrow> None | Some rs' \<Rightarrow> Some ((r + scaler * x) # rs'))"

text \<open>The sum of two vectors, entry by entry, over the length of the first.\<close>

fun vecAdd :: "Vector \<Rightarrow> Vector \<Rightarrow> Vector" where
  "vecAdd (v # vs) (x # xs) = (v + x) # vecAdd vs xs"
| "vecAdd vs [] = vs"
| "vecAdd [] xs = []"

text \<open>
  Modelled from the spec: \<^verbatim>\<open>ConstParamDelta.AddToVars\<close> is not among the sources; the spec
  says that it commits the delta by adding it to the live parameter values.
\<close>

definition AddToVars :: "ConstParamDelta \<Rightarrow> Vars \<Rightarrow> Vars" where
  "AddToVars delta vars = fold (\<lambda>(variable, subDelta) vs. vs(variable := vecAdd (vs variable) subDelta)) delta vars"

section \<open>learner.go\<close>

text \<open>
  The \<^verbatim>\<open>Objective\<close> interface is declared outside the sources; its methods are taken as
  they are called. \<^verbatim>\<open>QuadHessian\<close> is called at two signatures (two arguments and one
  result in learner.go, three arguments and two results in the solver), so its type is a
  parameter. Objectives are pure: a call returns a fresh result and changes nothing.
  A sample set is the list of its samples.
\<close>

record ('s, 'h) Objective =
  Objective :: "ConstParamDelta \<Rightarrow> 's list \<Rightarrow> real"
  Quad :: "ConstParamDelta \<Rightarrow> 's list \<Rightarrow> real"
  QuadGrad :: "ConstParamDelta \<Rightarrow> 's list \<Rightarrow> ConstParamDelta"
  QuadHessian :: "'h"

type_synonym 's LObjective = "('s, ConstParamDelta \<Rightarrow> 's list \<Rightarrow> ConstParamDelta) Objective"

text \<open>
  The \<^verbatim>\<open>Learner\<close> interface, as a receiver state \<open>'w\<close> and its methods. An objective is
  centred at the current values of the variables, so \<open>MakeObjective\<close> reads the store.
  \<^verbatim>\<open>Adjust\<close> has two arguments in learner.go and three where the trainer calls it, so
  the types of the objective and of \<^verbatim>\<open>Adjust\<close> are parameters.
\<close>

record ('w, 'obj, 'adj) Learner =
  Parameters :: "'w \<Rightarrow> Variable list"
  MakeObjective :: "'w \<Rightarrow> Vars \<Rightarrow> 'obj \<times> 'w"
  Adjust :: "'adj"

type_synonym ('w, 's) LLearner =
  "('w, 's LObjective, ConstParamDelta \<Rightarrow> 's list \<Rightarrow> 'w \<Rightarrow> Vars \<Rightarrow> 'w \<times> Vars) Learner"

record ('w, 's) DampingLearner =
  WrappedLearner :: "'w"
  DampingCoeff :: real
  lastObjective :: "'s LObjective option"

record 's dampedObjective =
  WrappedObjective :: "'s LObjective"
  Coeff :: real

definition defaultDampingCoeff :: real where
  "defaultDampingCoeff = 1"

definition DampingLearner_Parameters ::
  "('w, 's) LLearner \<Rightarrow> ('w, 's) DampingLearner \<Rightarrow> Variable list" where
  "DampingLearner_Parameters L d = Parameters L (WrappedLearner d)"

definition DampingLearner_MakeObjective ::
  "('w, 's) LLearner \<Rightarrow> ('w, 's) DampingLearner \<Rightarrow> Vars
     \<Rightarrow> 's dampedObjective \<times> ('w, 's) DampingLearner" where
  "DampingLearner_MakeObjective L d vars =
     (let d1 = (if DampingCoeff d = 0 then d\<lparr>DampingCoeff := defaultDampingCoeff\<rparr> else d);
          (obj, w) = MakeObjective L (WrappedLearner d1) vars;
          d2 = d1\<lparr>WrappedLearner := w, lastObjective := Some obj\<rparr>
      in (\<lparr>WrappedObjective = obj, Coeff = DampingCoeff d2\<rparr>, d2))"

text \<open>
  \<^verbatim>\<open>Adjust\<close>, lines 74 to 79: the three evaluations of the last objective and the trust
  ratio. \<^verbatim>\<open>ConstParamDelta{}\<close> is the empty map.
\<close>

definition Adjust_trust :: "'s LObjective \<Rightarrow> ConstParamDelta \<Rightarrow> 's list \<Rightarrow> quotient" where
  "Adjust_trust obj delta s =
     (let quadOffset = Quad obj delta s;
          centerVal = Objective obj [] s;
          realOffset = Objective obj [] s
      in fdiv (realOffset - centerVal) (quadOffset - centerVal))"

text \<open>\<^verbatim>\<open>Adjust\<close>, lines 80 to 84: the update of the coefficient from the trust ratio.\<close>

definition Adjust_damping :: "quotient \<Rightarrow> real \<Rightarrow> real" where
  "Adjust_damping trust coeff =
     (if flt trust 0.25 then coeff * (3 / 2)
      else if fgt trust 0.75 then coeff * (2 / 3)
      else coeff)"

text \<open>
  \<^verbatim>\<open>Adjust\<close> as a whole. Before the first \<^verbatim>\<open>MakeObjective\<close> the last objective is a nil
  interface and the first call on it panics (\<open>None\<close>).
\<close>

definition DampingLearner_Adjust ::
  "('w, 's) DampingLearner \<Rightarrow> ConstParamDelta \<Rightarrow> 's list \<Rightarrow> Vars
     \<Rightarrow> (('w, 's) DampingLearner \<times> Vars) option" where
  "DampingLearner_Adjust d delta s vars =
     (case lastObjective d of
        None \<Rightarrow> None
      | Some obj \<Rightarrow>
          (let trust = Adjust_trust obj delta s;
               vars' = AddToVars delta vars
           in Some (d\<lparr>DampingCoeff := Adjust_damping trust (DampingCoeff d)\<rparr>, vars')))"

definition dampedObjective_Quad :: "'s dampedObjective \<Rightarrow> ConstParamDelta \<Rightarrow> 's list \<Rightarrow> real" where
  "dampedObjective_Quad d delta s =
     (let res = Quad (WrappedObjective d) delta s;
          scaler = real (length s)
      in fold (\<lambda>(variable, subDelta) res. fold (\<lambda>x res. res + scaler * x * x) subDelta res)
           delta res)"

text \<open>
  The loop shared by \<^verbatim>\<open>QuadGrad\<close> and \<^verbatim>\<open>QuadHessian\<close>: \<^verbatim>\<open>res[variable]\<close> of a missing
  key is a nil slice, which any index panics on.
\<close>

fun addDamping :: "real \<Rightarrow> ConstParamDelta \<Rightarrow> ConstParamDelta \<Rightarrow> ConstParamDelta option" where
  "addDamping scaler [] res = Some res"
| "addDamping scaler ((variable, subDelta) # delta) res =
     (let resVec = (case map_of res variable of None \<Rightarrow> [] | Some v \<Rightarrow> v)
      in case addScaled scaler resVec subDelta of
           None \<Rightarrow> None
         | Some resVec' \<Rightarrow>
             addDamping scaler delta
               (if subDelta = [] then res else AList.update variable resVec' res))"

definition dampedObjective_QuadGrad ::
  "'s dampedObjective \<Rightarrow> ConstParamDelta \<Rightarrow> 's list \<Rightarrow> ConstParamDelta option" where
  "dampedObjective_QuadGrad d delta s =
     (let res = QuadGrad (WrappedObjective d) delta s;
          scaler = real (2 * length s)
      in addDamping scaler delta res)"

definition dampedObjective_QuadHessian ::
  "'s dampedObjective \<Rightarrow> ConstParamDelta \<Rightarrow> 's list \<Rightarrow> ConstParamDelta option" where
  "dampedObjective_QuadHessian d delta s =
     (let res = QuadHessian (WrappedObjective d) delta s;
          scaler = real (2 * length s)
      in addDamping scaler delta res)"

definition dampedObjective_Objective :: "'s dampedObjective \<Rightarrow> ConstParamDelta \<Rightarrow> 's list \<Rightarrow> real" where
  "dampedObjective_Objective d delta s = Objective (WrappedObjective d) delta s"


section \<open>Vector algebra of deltas\<close>

text \<open>
  Modelled from the spec: the methods \<^verbatim>\<open>dot\<close>, \<^verbatim>\<open>magSquared\<close>, \<^verbatim>\<open>scale\<close>,
  \<^verbatim>\<open>addDelta\<close> and \<^verbatim>\<open>copy\<close> of \<^verbatim>\<open>ConstParamDelta\<close> are not among the sources. The
  spec defines them pointwise per key, an absent key behaving as a zero vector:
  \<open>dot\<close> is the sum over keys of the inner products, \<open>magSquared\<close> is the dot product with
  itself, \<open>scale\<close> multiplies in place, \<open>addDelta other s\<close> adds \<open>s\<close> times \<open>other\<close> in
  place, \<open>copy\<close> is a deep copy (the identity on values).
\<close>

definition vecDot :: "Vector \<Rightarrow> Vector \<Rightarrow> real" where
  "vecDot v w = sum_list (map2 (*) v w)"

definition vecScale :: "real \<Rightarrow> Vector \<Rightarrow> Vector" where
  "vecScale f v = map (\<lambda>x. f * x) v"

definition dot :: "ConstParamDelta \<Rightarrow> ConstParamDelta \<Rightarrow> real" where
  "dot c other =
     sum_list (map (\<lambda>(variable, v). case map_of other variable of None \<Rightarrow> 0 | Some w \<Rightarrow> vecDot v w) c)"

definition magSquared :: "ConstParamDelta \<Rightarrow> real" where
  "magSquared c = dot c c"

definition scale :: "real \<Rightarrow> ConstParamDelta \<Rightarrow> ConstParamDelta" where
  "scale f c = map (\<lambda>(variable, v). (variable, vecScale f v)) c"

definition addDelta :: "ConstParamDelta \<Rightarrow> ConstParamDelta \<Rightarrow> real \<Rightarrow> ConstParamDelta" where
  "addDelta c other s =
     map (\<lambda>(variable, v).
            (variable, case map_of other variable of None \<Rightarrow> v | Some w \<Rightarrow> vecAdd v (vecScale s w))) c
     @ map (\<lambda>(variable, w). (variable, vecScale s w))
         (filter (\<lambda>(variable, w). map_of c variable = None) other)"

definition copy :: "ConstParamDelta \<Rightarrow> ConstParamDelta" where
  "copy c = c"

text \<open>
  A nil map reads as the empty map. The model keeps nil apart only in the two fields that
  the solver compares with nil, \<^verbatim>\<open>Solution\<close> and \<^verbatim>\<open>residual\<close>.
\<close>

fun deref :: "ConstParamDelta option \<Rightarrow> ConstParamDelta" where
  "deref None = []"
| "deref (Some d) = d"

section \<open>The trainer and the CG solver\<close>

definition defaultConvergenceMinK :: real where "defaultConvergenceMinK = 10"
definition defaultConvergenceKScale :: real where "defaultConvergenceKScale = 0.1"
definition defaultConvergenceEpsilon :: real where "defaultConvergenceEpsilon = 0.0005"
definition defaultBacktrackRate :: real where "defaultBacktrackRate = 1.3"

record ConvergenceCriteria =
  MinK :: real
  KScale :: real
  Epsilon :: real

text \<open>
  The objective as the solver calls it: \<^verbatim>\<open>QuadHessian(direction, point, samples)\<close> returns
  the curvature product and the quadratic value.
\<close>

type_synonym 's CGObjective =
  "('s, ConstParamDelta \<Rightarrow> ConstParamDelta \<Rightarrow> 's list \<Rightarrow> ConstParamDelta \<times> real) Objective"

type_synonym ('w, 's) TLearner =
  "('w, 's CGObjective,
    ConstParamDelta \<Rightarrow> ConstParamDelta option \<Rightarrow> 's list \<Rightarrow> 'w \<Rightarrow> Vars \<Rightarrow> 'w \<times> Vars) Learner"

text \<open>
  The \<^verbatim>\<open>UI\<close> interface is declared outside the sources. \<open>ShouldStop n\<close> is the answer to
  poll number \<open>n\<close>; the logging methods only record what they are given.
\<close>

record UI =
  ShouldStop :: "nat \<Rightarrow> bool"

record ('w, 's) Trainer =
  Learner :: "('w, 's) TLearner"
  Samples :: "'s list"
  BatchSize :: int
  UI :: UI
  Convergence :: ConvergenceCriteria
  BacktrackRate :: real

text \<open>
  What the trainer acts on: the learner, the variables, the number of polls of
  \<^verbatim>\<open>ShouldStop\<close> so far, and the calls made on the UI and on the learner, in order.
\<close>

datatype 's Event =
    PollShouldStop bool
  | LogNewMiniBatch int int
  | LogCGStart real real
  | LogCGIteration real real
  | CallMakeObjective
  | CallAdjust ConstParamDelta "ConstParamDelta option" "'s list"

record ('w, 's) World =
  learner :: "'w"
  vars :: Vars
  polls :: nat
  trace :: "'s Event list"

definition emit :: "'s Event \<Rightarrow> ('w, 's) World \<Rightarrow> ('w, 's) World" where
  "emit e w = w\<lparr>trace := trace w @ [e]\<rparr>"

text \<open>One poll of \<^verbatim>\<open>UI.ShouldStop()\<close>: its answer and the world after it.\<close>

definition poll :: "('w, 's) Trainer \<Rightarrow> ('w, 's) World \<Rightarrow> bool \<times> ('w, 's) World" where
  "poll t w =
     (let b = ShouldStop (UI t) (polls w)
      in (b, emit (PollShouldStop b) (w\<lparr>polls := polls w + 1\<rparr>)))"

text \<open>
  The solver. Its pointer to the trainer is the argument \<open>t\<close> of its methods; its fields
  \<^verbatim>\<open>Objective\<close> and \<^verbatim>\<open>Samples\<close> are \<open>cgObjective\<close> and \<open>cgSamples\<close> here.
\<close>

record 's cgSolver =
  cgObjective :: "'s CGObjective"
  cgSamples :: "'s list"
  Solution :: "ConstParamDelta option"
  residual :: "ConstParamDelta option"
  projectedResidual :: ConstParamDelta
  residualMag2 :: real
  hessianProduct :: ConstParamDelta
  lastQuadValue :: real
  justBacktracked :: bool
  backtrackCount :: nat
  backtrackDeltas :: "ConstParamDelta list"
  backtrackValues :: "real list"
  startObjective :: real
  quadValues :: "real list"

text \<open>The composite literal of \<^verbatim>\<open>Train\<close>: every field not named has its zero value.\<close>

definition newSolver :: "'s CGObjective \<Rightarrow> 's list \<Rightarrow> ConstParamDelta option \<Rightarrow> 's cgSolver" where
  "newSolver obj subSet lastSolution =
     \<lparr>cgObjective = obj, cgSamples = subSet, Solution = lastSolution,
      residual = None, projectedResidual = [], residualMag2 = 0, hessianProduct = [],
      lastQuadValue = 0, justBacktracked = False, backtrackCount = 0,
      backtrackDeltas = [], backtrackValues = [], startObjective = 0, quadValues = []\<rparr>"

text \<open>
  Go's conversion of a float to an \<^verbatim>\<open>int\<close> (64 bits) discards the fraction. When the
  value is not in the range of \<^verbatim>\<open>int\<close> the result depends on the implementation, and
  the model gives it no value (\<open>None\<close>).
\<close>

definition goInt :: "real \<Rightarrow> int option" where
  "goInt x =
     (let i = (if 0 \<le> x then \<lfloor>x\<rfloor> else \<lceil>x\<rceil>)
      in if - (2 ^ 63) \<le> i \<and> i < 2 ^ 63 then Some i else None)"

definition zeroDelta :: "('w, 's) Trainer \<Rightarrow> ('w, 's) World \<Rightarrow> ConstParamDelta" where
  "zeroDelta t w =
     fold (\<lambda>param delta. AList.update param (replicate (length (vars w param)) 0) delta)
       (Parameters (Learner t) (learner w)) []"

definition initializeIfNeeded ::
  "('w, 's) Trainer \<Rightarrow> 's cgSolver \<times> ('w, 's) World \<Rightarrow> 's cgSolver \<times> ('w, 's) World" where
  "initializeIfNeeded t cw =
     (let (c, w) = cw;
          c = (if Solution c = None then c\<lparr>Solution := Some (zeroDelta t w)\<rparr> else c)
      in if residual c = None then
           (let g = QuadGrad (cgObjective c) (deref (Solution c)) (cgSamples c);
                c = c\<lparr>residual := Some (scale (- 1) g)\<rparr>;
                c = c\<lparr>projectedResidual := copy (deref (residual c))\<rparr>;
                c = c\<lparr>residualMag2 := magSquared (deref (residual c))\<rparr>;
                c = c\<lparr>startObjective := Objective (cgObjective c) [] (cgSamples c)\<rparr>;
                (hp, quadValue) = QuadHessian (cgObjective c) (projectedResidual c)
                                    (deref (Solution c)) (cgSamples c);
                c = c\<lparr>hessianProduct := hp\<rparr>
            in (c, emit (LogCGStart quadValue (startObjective c)) w))
         else (c, w))"

text \<open>
  \<^verbatim>\<open>converging\<close>. A negative \<open>k\<close> makes the index \<^verbatim>\<open>len-1-k\<close> run past the end of the
  slice, which panics (\<open>None\<close>). There is no value either where the answer hangs on what
  the model leaves out: a \<open>k\<close> out of the range of \<^verbatim>\<open>int\<close>, and a nonzero numerator over
  a zero current improvement when the last value and the starting objective are both zero
  (the quotient is infinite with the sign of that zero difference). When they are equal and
  not zero, the difference is \<^verbatim>\<open>+0\<close>.
\<close>

definition converging :: "('w, 's) Trainer \<Rightarrow> 's cgSolver \<Rightarrow> bool option" where
  "converging t c =
     (let n = int (length (quadValues c))
      in if n < 2 \<or> quadValues c ! nat (n - 1) > startObjective c then Some False
         else
           (let kScale = KScale (Convergence t);
                minK = MinK (Convergence t);
                eps = Epsilon (Convergence t);
                kScale = (if kScale = 0 then defaultConvergenceKScale else kScale);
                minK = (if minK = 0 then defaultConvergenceMinK else minK);
                eps = (if eps = 0 then defaultConvergenceEpsilon else eps)
            in case goInt (max minK (kScale * real_of_int n)) of
                 None \<Rightarrow> None
               | Some k \<Rightarrow>
                   if k \<ge> n then Some False
                   else if k < 0 then None
                   else
                     (let currentImprovement = quadValues c ! nat (n - 1) - startObjective c;
                          oldImprovement = quadValues c ! nat (n - 1 - k) - startObjective c
                      in if currentImprovement = 0 \<and> oldImprovement \<noteq> 0 \<and> startObjective c = 0
                         then None
                         else Some (flt (fdiv (currentImprovement - oldImprovement)
                                           currentImprovement)
                                      (real_of_int k * eps)))))"

text \<open>
  The loop \<^verbatim>\<open>for int(math.Pow(btRate, float64(c.backtrackCount))) <= doneIters\<close> of
  \<^verbatim>\<open>updateBacktracking\<close>; it need not end (a rate of 1, say), and then has no value.
  Neither has it when a power leaves the range of \<^verbatim>\<open>int\<close>.
\<close>

partial_function (option) bumpCount :: "real \<Rightarrow> int \<Rightarrow> nat \<Rightarrow> nat option" where
  "bumpCount btRate doneIters count =
     (case goInt (btRate ^ count) of
        None \<Rightarrow> None
      | Some e \<Rightarrow>
          if e \<le> doneIters then bumpCount btRate doneIters (count + 1) else Some count)"

declare bumpCount.simps [code]

definition updateBacktracking :: "('w, 's) Trainer \<Rightarrow> 's cgSolver \<Rightarrow> 's cgSolver option" where
  "updateBacktracking t c =
     (let doneIters = int (length (quadValues c));
          btRate = BacktrackRate t;
          btRate = (if btRate = 0 then defaultBacktrackRate else btRate);
          expValue = btRate ^ backtrackCount c
      in case goInt expValue of
           None \<Rightarrow> None
         | Some e \<Rightarrow>
             if e > doneIters then Some c
             else
               (case bumpCount btRate doneIters (backtrackCount c) of
                  None \<Rightarrow> None
                | Some count \<Rightarrow>
                    (let c = c\<lparr>backtrackCount := count\<rparr>;
                         btValue = Objective (cgObjective c) (deref (Solution c)) (cgSamples c)
                     in Some (c\<lparr>backtrackDeltas :=
                                   backtrackDeltas c @ [copy (deref (Solution c))],
                                backtrackValues := backtrackValues c @ [btValue],
                                justBacktracked := True\<rparr>))))"

text \<open>
  \<^verbatim>\<open>Step\<close>: whether another step is wanted, the solver and the world after the step;
  \<open>None\<close> when the step panics or does not return.
\<close>

definition Step ::
  "('w, 's) Trainer \<Rightarrow> 's cgSolver \<times> ('w, 's) World
     \<Rightarrow> (bool \<times> 's cgSolver \<times> ('w, 's) World) option" where
  "Step t cw =
     (let (c, w) = initializeIfNeeded t cw;
          projHessianMag = dot (projectedResidual c) (hessianProduct c)
      in if projHessianMag = 0 \<or> residualMag2 c = 0 then Some (False, c, w)
         else
           (let c = c\<lparr>justBacktracked := False\<rparr>;
                stepSize = residualMag2 c / projHessianMag;
                c = c\<lparr>Solution := Some (addDelta (deref (Solution c)) (projectedResidual c) stepSize)\<rparr>;
                oldRMag2 = residualMag2 c;
                c = c\<lparr>residual := Some (addDelta (deref (residual c)) (hessianProduct c) (- stepSize))\<rparr>;
                c = c\<lparr>residualMag2 := magSquared (deref (residual c))\<rparr>;
                beta = residualMag2 c / oldRMag2;
                c = c\<lparr>projectedResidual := scale beta (projectedResidual c)\<rparr>;
                c = c\<lparr>projectedResidual := addDelta (projectedResidual c) (deref (residual c)) 1\<rparr>;
                (hp, quadValue) = QuadHessian (cgObjective c) (projectedResidual c)
                                    (deref (Solution c)) (cgSamples c);
                c = c\<lparr>hessianProduct := hp\<rparr>;
                c = c\<lparr>quadValues := quadValues c @ [quadValue]\<rparr>;
                w = emit (LogCGIteration stepSize quadValue) w
            in case converging t c of
                 None \<Rightarrow> None
               | Some True \<Rightarrow> Some (False, c, w)
               | Some False \<Rightarrow>
                   (case updateBacktracking t c of
                      None \<Rightarrow> None
                    | Some c \<Rightarrow> Some (True, c, w))))"

text \<open>
  The scan of \<^verbatim>\<open>Best\<close> over \<^verbatim>\<open>backtrackValues\<close>, from index \<open>i\<close> on;
  \<^verbatim>\<open>backtrackDeltas[i]\<close> beyond the end panics.
\<close>

fun bestScan ::
  "ConstParamDelta list \<Rightarrow> nat \<Rightarrow> real list \<Rightarrow> real \<Rightarrow> ConstParamDelta \<Rightarrow> ConstParamDelta option" where
  "bestScan ds i [] bestVal bestDelta = Some bestDelta"
| "bestScan ds i (v # vs) bestVal bestDelta =
     (if v < bestVal \<or> i = 0
      then (if i < length ds then bestScan ds (i + 1) vs v (ds ! i) else None)
      else bestScan ds (i + 1) vs bestVal bestDelta)"

definition Best :: "'s cgSolver \<Rightarrow> (ConstParamDelta \<times> 's cgSolver) option" where
  "Best c =
     (let c = (if \<not> justBacktracked c then
                 (let btValue = Objective (cgObjective c) (deref (Solution c)) (cgSamples c)
                  in c\<lparr>backtrackDeltas := backtrackDeltas c @ [deref (Solution c)],
                       backtrackValues := backtrackValues c @ [btValue],
                       justBacktracked := True\<rparr>)
               else c)
      in case bestScan (backtrackDeltas c) 0 (backtrackValues c) 0 [] of
           None \<Rightarrow> None
         | Some bestDelta \<Rightarrow> Some (bestDelta, c))"

text \<open>How a part of \<^verbatim>\<open>Train\<close> ends: \<^verbatim>\<open>Train\<close> returns, or goes on.\<close>

datatype ('r, 'a) flow = Return 'r | Next 'a

text \<open>\<^verbatim>\<open>for solver.Step() { if t.UI.ShouldStop() { return } }\<close>\<close>

partial_function (option) cgLoop ::
  "('w, 's) Trainer \<Rightarrow> 's cgSolver \<times> ('w, 's) World
     \<Rightarrow> (('w, 's) World, 's cgSolver \<times> ('w, 's) World) flow option" where
  "cgLoop t cw =
     (case Step t cw of
        None \<Rightarrow> None
      | Some (shouldContinue, c, w) \<Rightarrow>
          if shouldContinue then
            (let (stop, w) = poll t w
             in if stop then Some (Return w) else cgLoop t (c, w))
          else Some (Next (c, w)))"

declare cgLoop.simps [code]

text \<open>
  \<^verbatim>\<open>Subset\<close> belongs to the sample set, which is outside the sources: a slice expression,
  which panics on bounds out of order or out of range.
\<close>

definition Subset :: "'s list \<Rightarrow> int \<Rightarrow> int \<Rightarrow> 's list option" where
  "Subset xs i j =
     (if 0 \<le> i \<and> i \<le> j \<and> j \<le> int (length xs) then Some (take (nat (j - i)) (drop (nat i) xs))
      else None)"

text \<open>
  The body of the loop over mini-batches, from the poll on: the solution carried to the
  next mini-batch and the world, unless \<^verbatim>\<open>Train\<close> returns.
\<close>

definition runMiniBatch ::
  "('w, 's) Trainer \<Rightarrow> int \<Rightarrow> int \<Rightarrow> 's list \<Rightarrow> ConstParamDelta option \<Rightarrow> ('w, 's) World
     \<Rightarrow> (('w, 's) World, ConstParamDelta option \<times> ('w, 's) World) flow option" where
  "runMiniBatch t epoch miniBatch subSet lastSolution w =
     (let (stop, w) = poll t w
      in if stop then Some (Return w)
         else
           (let w = emit (LogNewMiniBatch epoch miniBatch) w;
                (obj, l) = MakeObjective (Learner t) (learner w) (vars w);
                w = emit CallMakeObjective (w\<lparr>learner := l\<rparr>);
                solver = newSolver obj subSet lastSolution
            in case cgLoop t (solver, w) of
                 None \<Rightarrow> None
               | Some (Return w) \<Rightarrow> Some (Return w)
               | Some (Next (solver, w)) \<Rightarrow>
                   (case Best solver of
                      None \<Rightarrow> None
                    | Some (useDelta, solver) \<Rightarrow>
                        (let lastSolution = Solution solver;
                             (l, vs) = Adjust (Learner t) useDelta lastSolution subSet
                                         (learner w) (vars w);
                             w = emit (CallAdjust useDelta lastSolution subSet)
                                   (w\<lparr>learner := l, vars := vs\<rparr>)
                         in Some (Next (lastSolution, w))))))"

text \<open>\<^verbatim>\<open>for i := 0; i < shuffled.Len(); i += t.BatchSize\<close>, from \<open>i\<close> on.\<close>

partial_function (option) batches ::
  "('w, 's) Trainer \<Rightarrow> 's list \<Rightarrow> int \<Rightarrow> int \<Rightarrow> int \<Rightarrow> ConstParamDelta option \<Rightarrow> ('w, 's) World
     \<Rightarrow> (('w, 's) World, ConstParamDelta option \<times> ('w, 's) World) flow option" where
  "batches t shuffled epoch miniBatch i lastSolution w =
     (if i < int (length shuffled) then
        (let bs = BatchSize t;
             bs = (if bs > int (length shuffled) - i then int (length shuffled) - i else bs)
         in case Subset shuffled i (i + bs) of
              None \<Rightarrow> None
            | Some subSet \<Rightarrow>
                (case runMiniBatch t epoch miniBatch subSet lastSolution w of
                   None \<Rightarrow> None
                 | Some (Return w) \<Rightarrow> Some (Return w)
                 | Some (Next (lastSolution, w)) \<Rightarrow>
                     batches t shuffled epoch (miniBatch + 1) (i + BatchSize t) lastSolution w))
      else Some (Next (lastSolution, w)))"

declare batches.simps [code]

text \<open>
  The outer loop of \<^verbatim>\<open>Train\<close>. \<open>rnd epoch\<close> is the permutation that
  \<^verbatim>\<open>sgd.ShuffleSampleSet\<close> draws in that epoch. \<^verbatim>\<open>Train\<close> returns only through a poll; a
  run that never returns has no value.
\<close>

partial_function (option) epochs ::
  "(int \<Rightarrow> 's list \<Rightarrow> 's list) \<Rightarrow> ('w, 's) Trainer \<Rightarrow> int \<Rightarrow> ConstParamDelta option
     \<Rightarrow> ('w, 's) World \<Rightarrow> ('w, 's) World option" where
  "epochs rnd t epoch lastSolution w =
     (let shuffled = rnd epoch (Samples t)
      in case batches t shuffled epoch 0 0 lastSolution w of
           None \<Rightarrow> None
         | Some (Return w) \<Rightarrow> Some w
         | Some (Next (lastSolution, w)) \<Rightarrow> epochs rnd t (epoch + 1) lastSolution w)"

declare epochs.simps [code]

definition Train ::
  "(int \<Rightarrow> 's list \<Rightarrow> 's list) \<Rightarrow> ('w, 's) Trainer \<Rightarrow> ('w, 's) World \<Rightarrow> ('w, 's) World option" where
  "Train rnd t w = epochs rnd t 0 None w"

section \<open>The linearizer\<close>

text \<open>
  The automatic-differentiation engine (autofunc) and linalg are outside the repository. An
  \<^verbatim>\<open>RResult\<close> is the pair of its \<^verbatim>\<open>Output()\<close> and its \<^verbatim>\<open>ROutput()\<close>, the derivative
  of the output along the seeded direction; an \<^verbatim>\<open>RVector\<close> is a map from variables to
  directions; \<^verbatim>\<open>BatchR(rv, in, n)\<close> is a parameter. \<^verbatim>\<open>NewRVariable(insVar, RVector{})\<close>
  is the input with a zero direction. \<^verbatim>\<open>Vector.Add\<close> adds in place,
  \<^verbatim>\<open>for i, x := range v1 { v[i] += x }\<close>, and panics past the end of the receiver.
\<close>

record RResult =
  Output :: Vector
  ROutput :: Vector

type_synonym RVector = "(Variable \<times> Vector) list"
type_synonym ParamDelta = "(Variable \<times> RResult) list"

definition outputRVector :: "ParamDelta \<Rightarrow> RVector" where
  "outputRVector p = map (\<lambda>(variable, r). (variable, Output r)) p"

definition rOutputRVector :: "ParamDelta \<Rightarrow> RVector" where
  "rOutputRVector p = map (\<lambda>(variable, r). (variable, ROutput r)) p"

fun Vector_Add :: "Vector \<Rightarrow> Vector \<Rightarrow> Vector option" where
  "Vector_Add v [] = Some v"
| "Vector_Add [] (x # xs) = None"
| "Vector_Add (y # ys) (x # xs) =
     (case Vector_Add ys xs of None \<Rightarrow> None | Some zs \<Rightarrow> Some ((y + x) # zs))"

definition NewRVariable :: "Vector \<Rightarrow> RVector \<Rightarrow> RResult" where
  "NewRVariable ins rv = \<lparr>Output = ins, ROutput = replicate (length ins) 0\<rparr>"

record Linearizer =
  Batcher :: "RVector \<Rightarrow> RResult \<Rightarrow> int \<Rightarrow> RResult"

record linearizerResult =
  OutputVec :: Vector
  BatcherOutput :: RResult
  Delta :: ParamDelta

definition LinearBatch :: "Linearizer \<Rightarrow> ParamDelta \<Rightarrow> Vector \<Rightarrow> int \<Rightarrow> linearizerResult option" where
  "LinearBatch l d ins n =
     (let insRVar = NewRVariable ins [];
          output = Batcher l (outputRVector d) insRVar n
      in case Vector_Add (Output output) (ROutput output) of
           None \<Rightarrow> None
         | Some v \<Rightarrow> Some \<lparr>OutputVec = v, BatcherOutput = output, Delta = d\<rparr>)"

definition linearizerResult_Output :: "linearizerResult \<Rightarrow> Vector" where
  "linearizerResult_Output l = OutputVec l"

section \<open>Commits and checkpoints\<close>

text \<open>The commits recorded in a world: the calls of \<^verbatim>\<open>Learner.Adjust\<close>, in order.\<close>

fun isAdjust :: "'s Event \<Rightarrow> bool" where
  "isAdjust (CallAdjust useDelta lastSolution subSet) = True"
| "isAdjust e = False"

definition adjusts :: "('w, 's) World \<Rightarrow> 's Event list" where
  "adjusts w = filter isAdjust (trace w)"


section \<open>Concrete inputs\<close>

text \<open>
  An objective over one variable: the true cost is \<open>10 - 6 x\<close> and the quadratic model
  \<open>10 - 8 x\<close>, where \<open>x\<close> is the sum of the entries of the delta.
\<close>

definition deltaSum :: "ConstParamDelta \<Rightarrow> real" where
  "deltaSum d = sum_list (concat (map snd d))"

definition exObjective :: "unit LObjective" where
  "exObjective =
     \<lparr>Objective = (\<lambda>d s. 10 - 6 * deltaSum d), Quad = (\<lambda>d s. 10 - 8 * deltaSum d),
      QuadGrad = (\<lambda>d s. d), QuadHessian = (\<lambda>d s. d)\<rparr>"

definition exDelta :: ConstParamDelta where
  "exDelta = [(0, [1])]"

definition exWrapped :: "(unit, unit) LLearner" where
  "exWrapped =
     \<lparr>Parameters = (\<lambda>w. [0]), MakeObjective = (\<lambda>w vs. (exObjective, w)),
      Adjust = (\<lambda>d s w vs. (w, vs))\<rparr>"

definition exDamping :: "real \<Rightarrow> (unit, unit) DampingLearner" where
  "exDamping coeff = \<lparr>WrappedLearner = (), DampingCoeff = coeff, lastObjective = Some exObjective\<rparr>"

text \<open>
  An objective that the quadratic model predicts well: the true cost is \<open>10 - 9 x\<close> and the
  quadratic model \<open>10 - 10 x\<close>, so a step achieves nine tenths of the predicted reduction.
\<close>

definition exTrusted :: "unit LObjective" where
  "exTrusted =
     \<lparr>Objective = (\<lambda>d s. 10 - 9 * deltaSum d), Quad = (\<lambda>d s. 10 - 10 * deltaSum d),
      QuadGrad = (\<lambda>d s. d), QuadHessian = (\<lambda>d s. d)\<rparr>"

definition exDampingTrusted :: "real \<Rightarrow> (unit, unit) DampingLearner" where
  "exDampingTrusted coeff =
     \<lparr>WrappedLearner = (), DampingCoeff = coeff, lastObjective = Some exTrusted\<rparr>"

definition exDamped :: "unit dampedObjective" where
  "exDamped = \<lparr>WrappedObjective = exObjective, Coeff = 2\<rparr>"

definition exVars :: Vars where
  "exVars = (\<lambda>variable. [0])"

text \<open>A batcher whose output is the input and whose derivative is the seed of variable 0.\<close>

definition exLinearizer :: Linearizer where
  "exLinearizer =
     \<lparr>Batcher = (\<lambda>rv ins n. \<lparr>Output = Output ins,
                              ROutput = (case map_of rv 0 of None \<Rightarrow> [] | Some v \<Rightarrow> v)\<rparr>)\<rparr>"

text \<open>
  A trainer on one variable of two entries and one sample. The quadratic model has the
  curvature \<open>diag(1, 2)\<close> and the gradient \<open>(-1, -1)\<close> at the centre, its minimum is at
  \<open>(1, 1/2)\<close>; the true cost is the sum of the entries of the delta. \<open>exTrainer n\<close> is asked
  to stop from poll \<open>n\<close> on.
\<close>

definition exH :: "Vector \<Rightarrow> Vector" where
  "exH v = map2 (*) [1, 2] v"

definition exCGObjective :: "unit CGObjective" where
  "exCGObjective =
     \<lparr>Objective = (\<lambda>d s. deltaSum d), Quad = (\<lambda>d s. 0),
      QuadGrad = (\<lambda>d s. map (\<lambda>(variable, v). (variable, map2 (+) (exH v) [- 1, - 1])) d),
      QuadHessian = (\<lambda>direction point s.
                      (map (\<lambda>(variable, v). (variable, exH v)) direction, - deltaSum point))\<rparr>"

definition exTLearner :: "(unit, unit) TLearner" where
  "exTLearner =
     \<lparr>Parameters = (\<lambda>w. [0]), MakeObjective = (\<lambda>w vs. (exCGObjective, w)),
      Adjust = (\<lambda>d ls s w vs. (w, AddToVars d vs))\<rparr>"

definition exTrainer :: "nat \<Rightarrow> (unit, unit) Trainer" where
  "exTrainer n =
     \<lparr>Learner = exTLearner, Samples = [()], BatchSize = 1, UI = \<lparr>ShouldStop = (\<lambda>i. n \<le> i)\<rparr>,
      Convergence = \<lparr>MinK = 0, KScale = 0, Epsilon = 0\<rparr>, BacktrackRate = 0\<rparr>"

definition exWorld :: "(unit, unit) World" where
  "exWorld = \<lparr>learner = (), vars = (\<lambda>variable. [0, 0]), polls = 0, trace = []\<rparr>"

text \<open>
  A solver after twelve iterations whose last quadratic value equals the starting objective,
  \<open>1\<close>; the value ten iterations back is \<open>6\<close>.
\<close>

definition exFlat :: "unit cgSolver" where
  "exFlat = (newSolver exCGObjective [()] (Some [(0, [0, 0])]))
              \<lparr>quadValues := [2, 6, 1, 1, 1, 1, 1, 1, 1, 1, 1, 1], startObjective := 1\<rparr>"

text \<open>
  The run of the solver on this trainer from the zero delta: after one step, after two steps.
  The third step finds the residual zero.
\<close>

definition exSolver0 :: "unit cgSolver" where
  "exSolver0 = newSolver exCGObjective [()] None"

text \<open>The solver of the run once initialised.\<close>

definition exInit :: "unit cgSolver" where
  "exInit = exSolver0\<lparr>Solution := Some [(0, [0, 0])], residual := Some [(0, [1, 1])],
                  projectedResidual := [(0, [1, 1])], residualMag2 := 2,
                  startObjective := 0, hessianProduct := [(0, [1, 2])]\<rparr>"

definition exSolver1 :: "unit cgSolver" where
  "exSolver1 =
     \<lparr>cgObjective = exCGObjective, cgSamples = [()], Solution = Some [(0, [2 / 3, 2 / 3])],
      residual = Some [(0, [1 / 3, - (1 / 3)])], projectedResidual = [(0, [4 / 9, - (2 / 9)])],
      residualMag2 = 2 / 9, hessianProduct = [(0, [4 / 9, - (4 / 9)])],
      lastQuadValue = 0, justBacktracked = True, backtrackCount = 3,
      backtrackDeltas = [[(0, [2 / 3, 2 / 3])]], backtrackValues = [4 / 3],
      startObjective = 0, quadValues = [- (4 / 3)]\<rparr>"

definition exSolver2 :: "unit cgSolver" where
  "exSolver2 =
     \<lparr>cgObjective = exCGObjective, cgSamples = [()], Solution = Some [(0, [1, 1 / 2])],
      residual = Some [(0, [0, 0])], projectedResidual = [(0, [0, 0])],
      residualMag2 = 0, hessianProduct = [(0, [0, 0])],
      lastQuadValue = 0, justBacktracked = True, backtrackCount = 5,
      backtrackDeltas = [[(0, [2 / 3, 2 / 3])], [(0, [1, 1 / 2])]], backtrackValues = [4 / 3, 3 / 2],
      startObjective = 0, quadValues = [- (4 / 3), - (3 / 2)]\<rparr>"

text \<open>
  The worlds of the run when the trainer is asked to stop from poll 1 on: when the solver
  starts, and when \<^verbatim>\<open>Train\<close> returns after the first step.
\<close>

definition exBatchStart :: "(unit, unit) World" where
  "exBatchStart =
     \<lparr>learner = (), vars = (\<lambda>variable. [0, 0]), polls = 1,
      trace = [PollShouldStop False, LogNewMiniBatch 0 0, CallMakeObjective]\<rparr>"

definition exStopped :: "(unit, unit) World" where
  "exStopped =
     \<lparr>learner = (), vars = (\<lambda>variable. [0, 0]), polls = 2,
      trace = [PollShouldStop False, LogNewMiniBatch 0 0, CallMakeObjective, LogCGStart 0 0,
               LogCGIteration (2 / 3) (- (4 / 3)), PollShouldStop True]\<rparr>"

text \<open>
  The worlds of the run when the trainer is not asked to stop before poll 5: when the solver
  is done, after its third step, and when the delta is committed.
\<close>

definition exDone :: "(unit, unit) World" where
  "exDone =
     \<lparr>learner = (), vars = (\<lambda>variable. [0, 0]), polls = 3,
      trace = [PollShouldStop False, LogNewMiniBatch 0 0, CallMakeObjective, LogCGStart 0 0,
               LogCGIteration (2 / 3) (- (4 / 3)), PollShouldStop False,
               LogCGIteration (3 / 4) (- (3 / 2)), PollShouldStop False]\<rparr>"

definition exCommitted :: "(unit, unit) World" where
  "exCommitted =
     \<lparr>learner = (), vars = (\<lambda>variable. [0, 0])(0 := [2 / 3, 2 / 3]), polls = 3,
      trace = [PollShouldStop False, LogNewMiniBatch 0 0, CallMakeObjective, LogCGStart 0 0,
               LogCGIteration (2 / 3) (- (4 / 3)), PollShouldStop False,
               LogCGIteration (3 / 4) (- (3 / 2)), PollShouldStop False,
               CallAdjust [(0, [2 / 3, 2 / 3])] (Some [(0, [1, 1 / 2])]) [()]]\<rparr>"

section \<open>The damping learner\<close>

lemma Adjust_trust_zero_numerator:
  "Adjust_trust obj delta s = fdiv 0 (Quad obj delta s - Objective obj [] s)"
  by (simp add: Adjust_trust_def)

lemma Adjust_trust_cases:
  "Adjust_trust obj delta s = (if Quad obj delta s \<noteq> Objective obj [] s then Fin 0 else NaN)"
  by (simp add: Adjust_trust_def fdiv_def)

text \<open>
  C1. The claim: the numerator of the trust ratio is the true cost at the proposed delta,
  \<open>rho = (r - c) / (q - c)\<close> with \<open>r = Objective(delta)\<close>. The code evaluates \<open>r\<close> at the
  empty delta, as it does \<open>c\<close>. At the delta \<open>{0: [1]}\<close> of the example, \<open>c = 10\<close>, \<open>r = 4\<close>
  and \<open>q = 2\<close>: the claimed ratio is \<open>3/4\<close>, which leaves the coefficient alone; the code
  computes \<open>0\<close> and multiplies the coefficient by \<open>3/2\<close>.
\<close>

theorem C1_trust_numerator_at_zero_delta:
  "Objective exObjective [] [()] = 10 \<and> Objective exObjective exDelta [()] = 4
   \<and> Quad exObjective exDelta [()] = 2
   \<and> fdiv (Objective exObjective exDelta [()] - Objective exObjective [] [()])
         (Quad exObjective exDelta [()] - Objective exObjective [] [()]) = Fin (3 / 4)
   \<and> Adjust_trust exObjective exDelta [()] = Fin 0
   \<and> map_option (DampingCoeff \<circ> fst) (DampingLearner_Adjust (exDamping 1) exDelta [()] exVars)
       = Some (3 / 2)
   \<and> Adjust_damping (Fin (3 / 4)) 1 = 1"
  by (simp add: exObjective_def exDelta_def deltaSum_def fdiv_def Adjust_trust_def
      DampingLearner_Adjust_def exDamping_def Adjust_damping_def)

lemma fold_add_sq:
  "fold (\<lambda>x res. res + k * x * x) xs (r::real) = r + k * sum_list (map (\<lambda>x. x * x) xs)"
  by (induction xs arbitrary: r) (simp_all add: algebra_simps)

lemma vecDot_self: "vecDot v v = sum_list (map (\<lambda>x. x * x) v)"
  by (induction v) (simp_all add: vecDot_def)

lemma dampedObjective_Quad_fold:
  "fold (\<lambda>(variable, subDelta) res. fold (\<lambda>x res. res + k * x * x) subDelta res) delta (r::real)
     = r + k * sum_list (map (\<lambda>(variable, v). vecDot v v) delta)"
  by (induction delta arbitrary: r) (simp_all add: fold_add_sq vecDot_self split_def distrib_left)

text \<open>
  What \<^verbatim>\<open>Quad\<close> does add: the number of samples times the squared norm of the delta,
  whatever the coefficient.
\<close>

lemma dampedObjective_Quad_adds:
  "dampedObjective_Quad d delta s
     = Quad (WrappedObjective d) delta s
       + real (length s) * sum_list (map (\<lambda>(variable, v). vecDot v v) delta)"
  by (simp add: dampedObjective_Quad_def dampedObjective_Quad_fold)

text \<open>
  C2. The claim: the damped objective adds \<open>lambda * n * ||delta||^2\<close> to \<^verbatim>\<open>Quad\<close> and
  \<open>2 * lambda * n * delta\<close> to \<^verbatim>\<open>QuadGrad\<close> and \<^verbatim>\<open>QuadHessian\<close>. The three methods never
  read \<^verbatim>\<open>Coeff\<close>. With \<open>lambda = 2\<close>, one sample and the delta \<open>{0: [1]}\<close>, the wrapped
  \<^verbatim>\<open>Quad\<close> is \<open>2\<close> and the damped one \<open>3\<close>, where the claim says \<open>4\<close>; the wrapped
  \<^verbatim>\<open>QuadGrad\<close> and \<^verbatim>\<open>QuadHessian\<close> are \<open>{0: [1]}\<close> and the damped ones \<open>{0: [3]}\<close>, where
  the claim says \<open>{0: [5]}\<close>.
\<close>

theorem C2_damping_ignores_coefficient:
  "Coeff exDamped = 2
   \<and> Quad (WrappedObjective exDamped) exDelta [()] = 2
   \<and> dampedObjective_Quad exDamped exDelta [()] = 3
   \<and> QuadGrad (WrappedObjective exDamped) exDelta [()] = [(0, [1])]
   \<and> dampedObjective_QuadGrad exDamped exDelta [()] = Some [(0, [3])]
   \<and> QuadHessian (WrappedObjective exDamped) exDelta [()] = [(0, [1])]
   \<and> dampedObjective_QuadHessian exDamped exDelta [()] = Some [(0, [3])]"
  by (simp add: exDamped_def exObjective_def exDelta_def deltaSum_def dampedObjective_Quad_def
      dampedObjective_QuadGrad_def dampedObjective_QuadHessian_def)

lemma MakeObjective_default:
  "DampingCoeff (snd (DampingLearner_MakeObjective L d vs))
     = (if DampingCoeff d = 0 then 1 else DampingCoeff d)"
  "Coeff (fst (DampingLearner_MakeObjective L d vs))
     = (if DampingCoeff d = 0 then 1 else DampingCoeff d)"
  by (simp_all add: DampingLearner_MakeObjective_def Let_def defaultDampingCoeff_def
      split: prod.splits)

text \<open>
  C6. The claim: in \<^verbatim>\<open>Adjust\<close>, a trust ratio below \<open>0.25\<close> multiplies the damping
  coefficient by \<open>1.5\<close>, one above \<open>0.75\<close> multiplies it by \<open>2/3\<close>, and any other leaves it,
  the trust ratio being \<open>(r - c) / (q - c)\<close> with \<open>r\<close> the true cost at the delta. The code
  branches so on a ratio whose numerator is always zero (the defect of C1), and never takes
  the second branch. At the delta \<open>{0: [1]}\<close> of the example, \<open>c = 10\<close>, \<open>r = 1\<close> and
  \<open>q = 0\<close>: the trust ratio is \<open>0.9\<close>, above \<open>0.75\<close>, and the claim takes the coefficient
  from \<open>1\<close> to \<open>2/3\<close>; the code computes the ratio \<open>0\<close> and takes it to \<open>3/2\<close>.
\<close>

theorem C6_trusted_step_raises_damping:
  "Objective exTrusted [] [()] = 10 \<and> Objective exTrusted exDelta [()] = 1
   \<and> Quad exTrusted exDelta [()] = 0
   \<and> fdiv (Objective exTrusted exDelta [()] - Objective exTrusted [] [()])
         (Quad exTrusted exDelta [()] - Objective exTrusted [] [()]) = Fin (9 / 10)
   \<and> fgt (Fin (9 / 10)) 0.75
   \<and> Adjust_trust exTrusted exDelta [()] = Fin 0
   \<and> map_option (DampingCoeff \<circ> fst)
         (DampingLearner_Adjust (exDampingTrusted 1) exDelta [()] exVars) = Some (3 / 2)
   \<and> (3 / 2 :: real) \<noteq> 1 * (2 / 3)"
  by (simp add: exTrusted_def exDelta_def deltaSum_def fdiv_def Adjust_trust_def
      DampingLearner_Adjust_def exDampingTrusted_def Adjust_damping_def)

text \<open>
  C10, as stated: after every \<^verbatim>\<open>Adjust\<close> the damping coefficient is at least what it was.
  It is not so for a negative coefficient: from \<open>-1\<close>, with the quadratic value \<open>2\<close> at the
  delta and the true cost \<open>10\<close> at the centre, the trust ratio is \<open>0\<close> and the coefficient
  becomes \<open>-3/2\<close>.
\<close>

theorem C10_negative_coefficient_decreases:
  "lastObjective (exDamping (- 1)) = Some exObjective
   \<and> Adjust_trust exObjective exDelta [()] = Fin 0
   \<and> map_option (DampingCoeff \<circ> fst) (DampingLearner_Adjust (exDamping (- 1)) exDelta [()] exVars)
       = Some (- (3 / 2))
   \<and> \<not> (DampingCoeff (exDamping (- 1)) \<le> - (3 / 2))"
  by (simp add: exObjective_def exDelta_def deltaSum_def fdiv_def Adjust_trust_def
      DampingLearner_Adjust_def exDamping_def Adjust_damping_def)

text \<open>
  C10, amended. Both evaluations of the true cost are at the empty delta, so the trust ratio
  that \<^verbatim>\<open>Adjust\<close> computes is \<open>0\<close> when the quadratic value at the delta differs from the true
  cost at the centre and NaN when they are equal. \<^verbatim>\<open>Adjust\<close> multiplies the coefficient by
  \<open>3/2\<close> in the first case and leaves it in the second, and never multiplies it by \<open>2/3\<close>.
  A coefficient that is not negative therefore stays so and does not decrease.
\<close>

theorem C10_damping_never_relaxed:
  assumes "DampingLearner_Adjust d delta s vs = Some (d', vs')"
  shows "\<exists>obj. lastObjective d = Some obj
           \<and> Adjust_trust obj delta s
               = (if Quad obj delta s \<noteq> Objective obj [] s then Fin 0 else NaN)
           \<and> DampingCoeff d'
               = (if Quad obj delta s \<noteq> Objective obj [] s then DampingCoeff d * (3 / 2)
                  else DampingCoeff d)
           \<and> (0 \<le> DampingCoeff d \<longrightarrow> 0 \<le> DampingCoeff d' \<and> DampingCoeff d \<le> DampingCoeff d')"
proof (cases "lastObjective d")
  case None
  with assms show ?thesis
    by (simp add: DampingLearner_Adjust_def)
next
  case (Some obj)
  with assms have d': "d' = d\<lparr>DampingCoeff := Adjust_damping (Adjust_trust obj delta s) (DampingCoeff d)\<rparr>"
    by (auto simp: DampingLearner_Adjust_def Let_def)
  have "DampingCoeff d'
          = (if Quad obj delta s \<noteq> Objective obj [] s then DampingCoeff d * (3 / 2)
             else DampingCoeff d)"
    by (simp add: d' Adjust_trust_cases Adjust_damping_def)
  moreover have "0 \<le> DampingCoeff d \<Longrightarrow> DampingCoeff d \<le> DampingCoeff d * (3 / 2)"
    by simp
  ultimately show ?thesis
    using Some by (auto simp: Adjust_trust_cases)
qed

theorem C10_damping_never_relaxed_witness:
  "DampingLearner_Adjust (exDamping 1) exDelta [()] exVars
     = Some (exDamping (3 / 2), AddToVars exDelta exVars)
   \<and> (\<exists>obj. lastObjective (exDamping 1) = Some obj
        \<and> Adjust_trust obj exDelta [()]
            = (if Quad obj exDelta [()] \<noteq> Objective obj [] [()] then Fin 0 else NaN)
        \<and> DampingCoeff (exDamping (3 / 2))
            = (if Quad obj exDelta [()] \<noteq> Objective obj [] [()] then DampingCoeff (exDamping 1) * (3 / 2)
               else DampingCoeff (exDamping 1))
        \<and> (0 \<le> DampingCoeff (exDamping 1) \<longrightarrow>
             0 \<le> DampingCoeff (exDamping (3 / 2))
             \<and> DampingCoeff (exDamping 1) \<le> DampingCoeff (exDamping (3 / 2))))"
proof -
  have run: "DampingLearner_Adjust (exDamping 1) exDelta [()] exVars
               = Some (exDamping (3 / 2), AddToVars exDelta exVars)"
    by (simp add: exObjective_def exDelta_def deltaSum_def fdiv_def Adjust_trust_def
        DampingLearner_Adjust_def exDamping_def Adjust_damping_def)
  show ?thesis
    using run C10_damping_never_relaxed [OF run] by simp
qed

section \<open>The linearizer's output\<close>

lemma Vector_Add_same_length:
  "length v = length v1 \<Longrightarrow> Vector_Add v v1 = Some (map2 (+) v v1)"
  by (induction v v1 rule: list_induct2) simp_all

text \<open>
  C9. For every delta \<open>d\<close>, input batch and batch size, \<^verbatim>\<open>LinearBatch\<close> runs the batcher once,
  forward mode, on the constant inputs (zero direction) with the direction that maps each
  variable of \<open>d\<close> to the output of its component, and the output vector of the result is
  the batcher's output at the centre plus its directional derivative, entry by entry. The
  engine returns the two with the same length.
\<close>

theorem C9_LinearBatch_output:
  assumes "output = Batcher l (outputRVector d) \<lparr>Output = ins, ROutput = replicate (length ins) 0\<rparr> n"
    and "length (Output output) = length (ROutput output)"
  shows "\<exists>r. LinearBatch l d ins n = Some r
           \<and> linearizerResult_Output r = map2 (+) (Output output) (ROutput output)
           \<and> BatcherOutput r = output \<and> Delta r = d
           \<and> map_of (outputRVector d) = map_option Output \<circ> map_of d"
proof -
  have "map_of (outputRVector d) variable = map_option Output (map_of d variable)" for variable
    by (induction d) (auto simp: outputRVector_def)
  then have "map_of (outputRVector d) = map_option Output \<circ> map_of d"
    by (simp add: fun_eq_iff)
  then show ?thesis
    using assms
    by (simp add: LinearBatch_def NewRVariable_def Vector_Add_same_length linearizerResult_Output_def
        Let_def)
qed

theorem C9_LinearBatch_output_witness:
  "\<exists>r. LinearBatch exLinearizer [(0, \<lparr>Output = [1, 2], ROutput = [0, 0]\<rparr>)] [10, 20] 1 = Some r
       \<and> linearizerResult_Output r = [11, 22]"
  using C9_LinearBatch_output [of "\<lparr>Output = [10, 20], ROutput = [1, 2]\<rparr>" exLinearizer
      "[(0, \<lparr>Output = [1, 2], ROutput = [0, 0]\<rparr>)]" "[10, 20]" 1]
  by (auto simp: exLinearizer_def outputRVector_def)

section \<open>Unfolding a step\<close>

lemmas ex_defs = exCGObjective_def exH_def exTLearner_def exTrainer_def deltaSum_def
  newSolver_def exSolver0_def

lemmas algebra_defs = dot_def vecDot_def vecScale_def magSquared_def scale_def addDelta_def
  copy_def

lemmas default_defs = defaultConvergenceKScale_def defaultConvergenceMinK_def
  defaultConvergenceEpsilon_def defaultBacktrackRate_def

lemma initializeIfNeeded_initialized:
  "Solution c \<noteq> None \<Longrightarrow> residual c \<noteq> None \<Longrightarrow> initializeIfNeeded t (c, w) = (c, w)"
  by (cases "Solution c"; cases "residual c") (simp_all add: initializeIfNeeded_def)

lemma initializeIfNeeded_fresh:
  assumes "residual c = None"
    and "x = (case Solution c of None \<Rightarrow> zeroDelta t w | Some d \<Rightarrow> d)"
    and "r = scale (- 1) (QuadGrad (cgObjective c) x (cgSamples c))"
    and "QuadHessian (cgObjective c) r x (cgSamples c) = (hp, q)"
    and "start = Objective (cgObjective c) [] (cgSamples c)"
  shows "initializeIfNeeded t (c, w)
           = (c\<lparr>Solution := Some x, residual := Some r, projectedResidual := r,
                residualMag2 := magSquared r, startObjective := start, hessianProduct := hp\<rparr>,
              emit (LogCGStart q start) w)"
proof (cases "Solution c")
  case None
  with assms show ?thesis
    by (simp add: initializeIfNeeded_def copy_def Let_def)
next
  case (Some d)
  then have "c\<lparr>Solution := Some d\<rparr> = c"
    by (cases c) simp
  with Some assms show ?thesis
    by (simp add: initializeIfNeeded_def copy_def Let_def)
qed

lemma Step_initialized:
  assumes "Solution c = Some x" and "residual c = Some r"
    and "projHessianMag = dot (projectedResidual c) (hessianProduct c)"
    and "projHessianMag \<noteq> 0" and "residualMag2 c \<noteq> 0"
    and "stepSize = residualMag2 c / projHessianMag"
    and "x' = addDelta x (projectedResidual c) stepSize"
    and "r' = addDelta r (hessianProduct c) (- stepSize)"
    and "p' = addDelta (scale (magSquared r' / residualMag2 c) (projectedResidual c)) r' 1"
    and "QuadHessian (cgObjective c) p' x' (cgSamples c) = (hp', q)"
    and "c' = c\<lparr>justBacktracked := False, Solution := Some x', residual := Some r',
                 residualMag2 := magSquared r', projectedResidual := p', hessianProduct := hp',
                 quadValues := quadValues c @ [q]\<rparr>"
  shows "Step t (c, w) =
           (case converging t c' of
              None \<Rightarrow> None
            | Some True \<Rightarrow> Some (False, c', emit (LogCGIteration stepSize q) w)
            | Some False \<Rightarrow>
                (case updateBacktracking t c' of
                   None \<Rightarrow> None
                 | Some c'' \<Rightarrow> Some (True, c'', emit (LogCGIteration stepSize q) w)))"
proof -
  have init: "initializeIfNeeded t (c, w) = (c, w)"
    using assms(1,2) by (simp add: initializeIfNeeded_initialized)
  show ?thesis
    unfolding Step_def init using assms
    by (simp add: Let_def cong: option.case_cong bool.case_cong)
qed

lemma initializeIfNeeded_result:
  "initializeIfNeeded t cw = (c, w) \<Longrightarrow> Solution c \<noteq> None \<and> residual c \<noteq> None"
  by (cases cw) (auto simp: initializeIfNeeded_def Let_def split: if_splits prod.splits)

lemma Step_after_init: "Step t cw = Step t (initializeIfNeeded t cw)"
proof -
  obtain c w where init: "initializeIfNeeded t cw = (c, w)"
    by (cases "initializeIfNeeded t cw")
  from initializeIfNeeded_result [OF init]
  have "initializeIfNeeded t (c, w) = (c, w)"
    by (simp add: initializeIfNeeded_initialized)
  then show ?thesis
    by (simp add: Step_def init)
qed

lemma goInt_max_ge: "m = 10 \<Longrightarrow> goInt (max m x) = Some k \<Longrightarrow> 10 \<le> k"
  unfolding goInt_def by (auto simp: max_def le_floor_iff Let_def split: if_splits)

text \<open>
  With \<open>minK = 10\<close> (given, or the default for zero) the test does not answer converged
  while at most ten quadratic values are recorded.
\<close>

lemma converging_never_early:
  assumes "MinK (Convergence t) = 0 \<or> MinK (Convergence t) = 10"
    and "length (quadValues c) \<le> 10"
  shows "converging t c \<noteq> Some True"
proof -
  have minK: "(if MinK (Convergence t) = 0 then 10 else MinK (Convergence t)) = 10"
    using assms(1) by auto
  show ?thesis
  proof (cases "goInt (max 10 ((if KScale (Convergence t) = 0 then 1 / 10
                                  else KScale (Convergence t))
                                 * real (length (quadValues c))))")
    case None
    then show ?thesis
      unfolding converging_def Let_def default_defs using minK by (simp split: if_splits)
  next
    case (Some k)
    from goInt_max_ge [OF refl Some] assms(2) have "int (length (quadValues c)) \<le> k"
      by simp
    with Some show ?thesis
      unfolding converging_def Let_def default_defs using minK by (simp split: if_splits)
  qed
qed

lemma converging_window:
  assumes "MinK (Convergence t) = 0" and "KScale (Convergence t) = 0"
    and "length (quadValues c) \<le> 10"
  shows "converging t c = Some False"
proof -
  have "max 10 (real (length (quadValues c)) / 10) = 10"
    using assms(3) by (simp add: max_def)
  then have "goInt (max 10 (real (length (quadValues c)) / 10)) = Some 10"
    by (simp add: goInt_def)
  then show ?thesis
    unfolding converging_def Let_def default_defs using assms by simp
qed

lemma updateBacktracking_checkpoint:
  assumes "btRate = (if BacktrackRate t = 0 then 1.3 else BacktrackRate t)"
    and "goInt (btRate ^ backtrackCount c) = Some e" and "e \<le> int (length (quadValues c))"
    and "bumpCount btRate (int (length (quadValues c))) (backtrackCount c) = Some n"
    and "Solution c = Some x"
  shows "updateBacktracking t c
           = Some (c\<lparr>backtrackCount := n, backtrackDeltas := backtrackDeltas c @ [x],
                     backtrackValues := backtrackValues c
                        @ [Objective (cgObjective c) x (cgSamples c)],
                     justBacktracked := True\<rparr>)"
  using assms by (auto simp: updateBacktracking_def default_defs copy_def Let_def split: if_splits)

section \<open>The example run\<close>

lemma bumpCount_1: "bumpCount 1.3 1 0 = Some 3"
  apply (subst bumpCount.simps, simp add: goInt_def)
  apply (subst bumpCount.simps, simp add: goInt_def)
  apply (subst bumpCount.simps, simp add: goInt_def power2_eq_square)
  apply (subst bumpCount.simps, simp add: goInt_def power3_eq_cube)
  done

lemma bumpCount_2: "bumpCount 1.3 2 3 = Some 5"
  apply (subst bumpCount.simps, simp add: goInt_def power3_eq_cube)
  apply (subst bumpCount.simps, simp add: goInt_def power4_eq_xxxx)
  apply (subst bumpCount.simps, simp add: goInt_def eval_nat_numeral)
  done

lemma ex_init:
  assumes "vars w 0 = [0, 0]"
  shows "initializeIfNeeded (exTrainer n) (exSolver0, w) = (exInit, emit (LogCGStart 0 0) w)"
proof -
  have "initializeIfNeeded (exTrainer n) (exSolver0, w)
          = (exSolver0\<lparr>Solution := Some [(0, [0, 0])], residual := Some [(0, [1, 1])],
                projectedResidual := [(0, [1, 1])], residualMag2 := magSquared [(0, [1, 1])],
                startObjective := 0, hessianProduct := [(0, [1, 2])]\<rparr>,
             emit (LogCGStart 0 0) w)"
    by (rule initializeIfNeeded_fresh) (simp_all add: ex_defs zeroDelta_def assms scale_def vecScale_def)
  then show ?thesis
    by (simp add: exInit_def algebra_defs)
qed

lemma ex_Step1:
  assumes "vars w 0 = [0, 0]"
  shows "Step (exTrainer n) (exSolver0, w)
     = Some (True, exSolver1, emit (LogCGIteration (2 / 3) (- (4 / 3))) (emit (LogCGStart 0 0) w))"
proof -
  let ?c' = "exInit\<lparr>justBacktracked := False, Solution := Some [(0, [2 / 3, 2 / 3])],
                residual := Some [(0, [1 / 3, - (1 / 3)])], residualMag2 := magSquared [(0, [1 / 3, - (1 / 3)])],
                projectedResidual := [(0, [4 / 9, - (2 / 9)])], hessianProduct := [(0, [4 / 9, - (4 / 9)])],
                quadValues := quadValues exInit @ [- (4 / 3)]\<rparr>"
  have step: "Step (exTrainer n) (exInit, emit (LogCGStart 0 0) w) =
           (case converging (exTrainer n) ?c' of
              None \<Rightarrow> None
            | Some True \<Rightarrow> Some (False, ?c', emit (LogCGIteration (2 / 3) (- (4 / 3))) (emit (LogCGStart 0 0) w))
            | Some False \<Rightarrow>
                (case updateBacktracking (exTrainer n) ?c' of
                   None \<Rightarrow> None
                 | Some c'' \<Rightarrow> Some (True, c'', emit (LogCGIteration (2 / 3) (- (4 / 3))) (emit (LogCGStart 0 0) w))))"
    by (rule Step_initialized [where projHessianMag = 3 and x = "[(0, [0, 0])]"
          and r = "[(0, [1, 1])]" and x' = "[(0, [2 / 3, 2 / 3])]"
          and r' = "[(0, [1 / 3, - (1 / 3)])]" and p' = "[(0, [4 / 9, - (2 / 9)])]"])
       (simp_all add: exInit_def ex_defs algebra_defs)
  have conv: "converging (exTrainer n) ?c' = Some False"
    by (rule converging_window) (simp_all add: exInit_def ex_defs)
  have bt: "updateBacktracking (exTrainer n) ?c' = Some exSolver1"
    by (subst updateBacktracking_checkpoint [where btRate = "1.3" and e = 1 and n = 3
          and x = "[(0, [2 / 3, 2 / 3])]"])
       (simp_all add: exInit_def ex_defs goInt_def bumpCount_1 exSolver1_def algebra_defs)
  show ?thesis
    by (subst Step_after_init) (simp add: ex_init assms step conv bt)
qed

lemma ex_Step2:
  "Step (exTrainer n) (exSolver1, w)
     = Some (True, exSolver2, emit (LogCGIteration (3 / 4) (- (3 / 2))) w)"
proof -
  let ?c' = "exSolver1\<lparr>justBacktracked := False, Solution := Some [(0, [1, 1 / 2])],
                residual := Some [(0, [0, 0])], residualMag2 := magSquared [(0, [0, 0])],
                projectedResidual := [(0, [0, 0])], hessianProduct := [(0, [0, 0])],
                quadValues := quadValues exSolver1 @ [- (3 / 2)]\<rparr>"
  have step: "Step (exTrainer n) (exSolver1, w) =
           (case converging (exTrainer n) ?c' of
              None \<Rightarrow> None
            | Some True \<Rightarrow> Some (False, ?c', emit (LogCGIteration (3 / 4) (- (3 / 2))) w)
            | Some False \<Rightarrow>
                (case updateBacktracking (exTrainer n) ?c' of
                   None \<Rightarrow> None
                 | Some c'' \<Rightarrow> Some (True, c'', emit (LogCGIteration (3 / 4) (- (3 / 2))) w)))"
    by (rule Step_initialized [where projHessianMag = "8 / 27" and x = "[(0, [2 / 3, 2 / 3])]"
          and r = "[(0, [1 / 3, - (1 / 3)])]" and x' = "[(0, [1, 1 / 2])]"
          and r' = "[(0, [0, 0])]" and p' = "[(0, [0, 0])]"])
       (simp_all add: exSolver1_def ex_defs algebra_defs)
  have conv: "converging (exTrainer n) ?c' = Some False"
    by (rule converging_window) (simp_all add: exSolver1_def ex_defs)
  have bt: "updateBacktracking (exTrainer n) ?c' = Some exSolver2"
    by (subst updateBacktracking_checkpoint [where btRate = "1.3" and e = 2 and n = 5
          and x = "[(0, [1, 1 / 2])]"])
       (simp_all add: exSolver1_def ex_defs goInt_def bumpCount_2 exSolver2_def algebra_defs
          power3_eq_cube)
  show ?thesis
    by (simp add: step conv bt)
qed

lemma ex_Step3: "Step (exTrainer n) (exSolver2, w) = Some (False, exSolver2, w)"
  by (simp add: Step_def initializeIfNeeded_def exSolver2_def algebra_defs)

lemma ex_Best: "Best exSolver2 = Some ([(0, [2 / 3, 2 / 3])], exSolver2)"
  by (simp add: Best_def exSolver2_def)

section \<open>The convergence test\<close>

text \<open>
  C4. The claim: the test answers converged only when, among other things, the most recent
  quadratic value is below the starting objective, as in the criterion of Martens (2010)
  that the comment on \<^verbatim>\<open>ConvergenceCriteria\<close> cites. The guard of the code leaves only on
  \<^verbatim>\<open>>\<close>, so a last value equal to the starting objective goes on to a division by a zero
  improvement. With twelve values, the last equal to the starting objective \<open>1\<close> and the
  one ten iterations back \<open>6\<close>: \<open>k = 10\<close>, the current improvement is \<open>1 - 1 = 0\<close>, the
  old one is \<open>5\<close>, the quotient is \<open>-5 / 0 = -Inf\<close>, which is below \<open>10 * 0.0005\<close>, and
  the test answers converged though the last value is not below the starting objective.
\<close>

theorem C4_converged_at_equality:
  "converging (exTrainer 0) exFlat = Some True
   \<and> length (quadValues exFlat) = 12
   \<and> goInt (max 10 (0.1 * 12)) = Some 10
   \<and> last (quadValues exFlat) = startObjective exFlat
   \<and> \<not> last (quadValues exFlat) < startObjective exFlat
   \<and> fdiv ((1 - 1) - (6 - 1)) (1 - 1) = NegInf
   \<and> flt NegInf (10 * 0.0005)"
  by (simp add: converging_def exFlat_def newSolver_def exTrainer_def default_defs goInt_def
      fdiv_def Let_def)

section \<open>The degenerate step\<close>

lemma Step_degenerate:
  assumes "initializeIfNeeded t cw = (c, w)"
    and "dot (projectedResidual c) (hessianProduct c) = 0 \<or> residualMag2 c = 0"
  shows "Step t cw = Some (False, c, w)"
  using assms by (simp add: Step_def)

text \<open>
  C7. \<^verbatim>\<open>Step\<close> initialises the solver if that is still to do, and then: if the curvature
  projection \<open>p \<cdot> Hp\<close> is zero or the cached \<open>|r|^2\<close> is zero, it returns false, the solver
  and the world being those after the initialisation; it neither panics nor fails to
  return. For a solver that is initialised already, nothing changes at all: no update of
  the iterate, no value recorded, no call on the UI.
\<close>

theorem C7_Step_degenerate:
  "(initializeIfNeeded t cw = (c, w)
      \<and> (dot (projectedResidual c) (hessianProduct c) = 0 \<or> residualMag2 c = 0)
      \<longrightarrow> Step t cw = Some (False, c, w))
   \<and> (Solution c \<noteq> None \<and> residual c \<noteq> None
      \<and> (dot (projectedResidual c) (hessianProduct c) = 0 \<or> residualMag2 c = 0)
      \<longrightarrow> Step t (c, w) = Some (False, c, w))"
  using Step_degenerate [of t cw c w] Step_degenerate [of t "(c, w)" c w]
    initializeIfNeeded_initialized [of c t w]
  by blast

theorem C7_Step_degenerate_witness:
  "initializeIfNeeded (exTrainer 0) (exSolver2, exWorld) = (exSolver2, exWorld)
   \<and> Solution exSolver2 \<noteq> None \<and> residual exSolver2 \<noteq> None
   \<and> dot (projectedResidual exSolver2) (hessianProduct exSolver2) = 0
   \<and> residualMag2 exSolver2 = 0
   \<and> Step (exTrainer 0) (exSolver2, exWorld) = Some (False, exSolver2, exWorld)"
  using C7_Step_degenerate [of "exTrainer 0" "(exSolver2, exWorld)" exSolver2 exWorld]
  by (simp add: initializeIfNeeded_def exSolver2_def algebra_defs)

section \<open>Cancellation\<close>

lemma adjusts_emit: "adjusts (emit e w) = adjusts w @ (if isAdjust e then [e] else [])"
  by (simp add: adjusts_def emit_def)

lemma emit_fields:
  "vars (emit e w) = vars w" "learner (emit e w) = learner w" "polls (emit e w) = polls w"
  by (simp_all add: emit_def)

lemma poll_world:
  "adjusts (snd (poll t w)) = adjusts w" "vars (snd (poll t w)) = vars w"
  "learner (snd (poll t w)) = learner w"
  by (simp_all add: poll_def Let_def adjusts_emit emit_fields) (simp add: adjusts_def)

lemma initializeIfNeeded_world:
  "initializeIfNeeded t (c, w) = (c', w') \<Longrightarrow> w' = w \<or> (\<exists>q s. w' = emit (LogCGStart q s) w)"
  by (auto simp: initializeIfNeeded_def Let_def split: if_splits prod.splits)

lemma Step_world:
  assumes "Step t (c, w) = Some (b, c', w')"
  shows "adjusts w' = adjusts w \<and> vars w' = vars w \<and> learner w' = learner w"
proof -
  obtain c1 w1 where init: "initializeIfNeeded t (c, w) = (c1, w1)"
    by (cases "initializeIfNeeded t (c, w)")
  have "w' = w1 \<or> (\<exists>a q. w' = emit (LogCGIteration a q) w1)"
    using assms unfolding Step_def init
    by (auto simp: Let_def split: if_splits prod.splits option.splits bool.splits)
  with initializeIfNeeded_world [OF init] show ?thesis
    by (auto simp: adjusts_emit emit_fields)
qed

lemmas cgLoop_induct = cgLoop.raw_induct [rotated 1, consumes 1, case_names step]

lemma cgLoop_stop:
  assumes "Step t cw = Some (True, c, w1)" and "fst (poll t w1)"
  shows "cgLoop t cw = Some (Return (snd (poll t w1)))"
  using assms by (subst cgLoop.simps) (simp add: split_beta)

lemma cgLoop_continue:
  assumes "Step t cw = Some (True, c, w1)" and "\<not> fst (poll t w1)"
  shows "cgLoop t cw = cgLoop t (c, snd (poll t w1))"
  using assms by (subst cgLoop.simps) (simp add: split_beta)

lemma cgLoop_done:
  assumes "Step t cw = Some (False, c, w1)"
  shows "cgLoop t cw = Some (Next (c, w1))"
  using assms by (subst cgLoop.simps) simp

lemma cgLoop_world:
  assumes "cgLoop t cw = Some r"
  shows "case r of
           Return w' \<Rightarrow> adjusts w' = adjusts (snd cw) \<and> vars w' = vars (snd cw)
         | Next (c', w') \<Rightarrow> adjusts w' = adjusts (snd cw) \<and> vars w' = vars (snd cw)"
  using assms
proof (induction t cw r rule: cgLoop_induct)
  case (step loop t cw r)
  obtain c w where cw: "cw = (c, w)" by (cases cw)
  from step(2) obtain b c1 w1 where st: "Step t (c, w) = Some (b, c1, w1)"
    by (auto simp: cw split: option.splits)
  note sw = Step_world [OF st]
  show ?case
  proof (cases b)
    case False
    with step(2) st show ?thesis by (auto simp: cw sw)
  next
    case True
    show ?thesis
    proof (cases "fst (poll t w1)")
      case stop: True
      with step(2) st True have "r = Return (snd (poll t w1))"
        by (auto simp: cw split: prod.splits)
      then show ?thesis by (simp add: cw poll_world sw)
    next
      case go: False
      with step(2) st True have "loop t (c1, snd (poll t w1)) = Some r"
        by (auto simp: cw split: prod.splits)
      from step(1) [OF this] show ?thesis
        by (cases r) (auto simp: cw poll_world sw)
    qed
  qed
qed

lemma runMiniBatch_stop:
  "fst (poll t w) \<Longrightarrow> runMiniBatch t epoch miniBatch subSet lastSolution w = Some (Return (snd (poll t w)))"
  by (simp add: runMiniBatch_def split_beta)

lemma runMiniBatch_go:
  assumes "\<not> fst (poll t w)"
    and "MakeObjective (Learner t) (learner w) (vars w) = (obj, l)"
    and "w2 = emit CallMakeObjective ((emit (LogNewMiniBatch epoch miniBatch) (snd (poll t w)))\<lparr>learner := l\<rparr>)"
  shows "runMiniBatch t epoch miniBatch subSet lastSolution w =
           (case cgLoop t (newSolver obj subSet lastSolution, w2) of
              None \<Rightarrow> None
            | Some (Return w') \<Rightarrow> Some (Return w')
            | Some (Next (solver, w')) \<Rightarrow>
                (case Best solver of
                   None \<Rightarrow> None
                 | Some (useDelta, solver') \<Rightarrow>
                     Some (Next (Solution solver',
                       emit (CallAdjust useDelta (Solution solver') subSet)
                         (w'\<lparr>learner := fst (Adjust (Learner t) useDelta (Solution solver') subSet (learner w') (vars w')),
                             vars := snd (Adjust (Learner t) useDelta (Solution solver') subSet (learner w') (vars w'))\<rparr>)))))"
  using assms
  by (simp add: runMiniBatch_def split_beta Let_def emit_fields poll_world
      cong: option.case_cong flow.case_cong)

lemma runMiniBatch_return:
  assumes "runMiniBatch t epoch miniBatch subSet lastSolution w = Some (Return w')"
  shows "adjusts w' = adjusts w \<and> vars w' = vars w"
proof (cases "fst (poll t w)")
  case True
  with assms have "w' = snd (poll t w)"
    by (simp add: runMiniBatch_stop)
  then show ?thesis
    by (simp add: poll_world)
next
  case False
  obtain obj l where mk: "MakeObjective (Learner t) (learner w) (vars w) = (obj, l)"
    by (cases "MakeObjective (Learner t) (learner w) (vars w)")
  define w2 where "w2 = emit CallMakeObjective ((emit (LogNewMiniBatch epoch miniBatch) (snd (poll t w)))\<lparr>learner := l\<rparr>)"
  have w2: "adjusts w2 = adjusts w" "vars w2 = vars w"
    using poll_world(1,2) [of t w]
    by (simp_all add: w2_def adjusts_emit emit_fields) (simp add: adjusts_def emit_def)
  from assms have "cgLoop t (newSolver obj subSet lastSolution, w2) = Some (Return w')"
    unfolding runMiniBatch_go [OF False mk w2_def]
    by (auto split: option.splits flow.splits)
  from cgLoop_world [OF this] show ?thesis
    by (simp add: w2)
qed

lemma batches_return:
  assumes "i < int (length shuffled)"
    and "Subset shuffled i (i + (if BatchSize t > int (length shuffled) - i
                                  then int (length shuffled) - i else BatchSize t)) = Some subSet"
    and "runMiniBatch t epoch miniBatch subSet lastSolution w = Some (Return w')"
  shows "batches t shuffled epoch miniBatch i lastSolution w = Some (Return w')"
  using assms by (subst batches.simps) (simp add: Let_def)

lemma epochs_return:
  assumes "batches t (rnd epoch (Samples t)) epoch 0 0 lastSolution w = Some (Return w')"
  shows "epochs rnd t epoch lastSolution w = Some w'"
  using assms by (subst epochs.simps) (simp add: Let_def)

text \<open>
  C8. Whenever \<^verbatim>\<open>ShouldStop\<close> answers true at the poll before a mini-batch, the body of the
  loop makes \<^verbatim>\<open>Train\<close> return with nothing done but the poll. Whenever it answers true at
  the poll after a CG iteration, the loop over the steps makes \<^verbatim>\<open>Train\<close> return with the
  world of that poll, and so does the body of the mini-batch whose solver this is. A return
  from a mini-batch leaves the commits and the variables as they were before it:
  \<^verbatim>\<open>Learner.Adjust\<close> is not called for it. The return goes through the loop over the
  mini-batches and the loop over the epochs as it is, so \<^verbatim>\<open>Train\<close> returns there and then.
\<close>

theorem C8_cancellation:
  "(fst (poll t w) \<longrightarrow>
      runMiniBatch t epoch miniBatch subSet lastSolution w = Some (Return (snd (poll t w))))
   \<and> (Step t cw = Some (True, c, w1) \<and> fst (poll t w1) \<longrightarrow>
        cgLoop t cw = Some (Return (snd (poll t w1))))
   \<and> (\<not> fst (poll t w) \<and> MakeObjective (Learner t) (learner w) (vars w) = (obj, l)
        \<and> cgLoop t (newSolver obj subSet lastSolution,
                     emit CallMakeObjective
                       ((emit (LogNewMiniBatch epoch miniBatch) (snd (poll t w)))\<lparr>learner := l\<rparr>))
            = Some (Return w') \<longrightarrow>
        runMiniBatch t epoch miniBatch subSet lastSolution w = Some (Return w'))
   \<and> (runMiniBatch t epoch miniBatch subSet lastSolution w = Some (Return w') \<longrightarrow>
        adjusts w' = adjusts w \<and> vars w' = vars w)
   \<and> (i < int (length shuffled)
        \<and> Subset shuffled i (i + (if BatchSize t > int (length shuffled) - i
                                     then int (length shuffled) - i else BatchSize t)) = Some subSet
        \<and> runMiniBatch t epoch miniBatch subSet lastSolution w = Some (Return w') \<longrightarrow>
        batches t shuffled epoch miniBatch i lastSolution w = Some (Return w'))
   \<and> (batches t (rnd epoch (Samples t)) epoch 0 0 lastSolution w = Some (Return w') \<longrightarrow>
        epochs rnd t epoch lastSolution w = Some w')"
proof -
  have go: "runMiniBatch t epoch miniBatch subSet lastSolution w = Some (Return w')"
    if "\<not> fst (poll t w)" and "MakeObjective (Learner t) (learner w) (vars w) = (obj, l)"
      and "cgLoop t (newSolver obj subSet lastSolution,
                     emit CallMakeObjective
                       ((emit (LogNewMiniBatch epoch miniBatch) (snd (poll t w)))\<lparr>learner := l\<rparr>))
            = Some (Return w')"
    using that(3) by (simp add: runMiniBatch_go [OF that(1,2) refl])
  show ?thesis
    using runMiniBatch_stop [of t w epoch miniBatch subSet lastSolution]
      cgLoop_stop [of t cw c w1] go
      runMiniBatch_return [of t epoch miniBatch subSet lastSolution w w']
      batches_return [of i shuffled t subSet epoch miniBatch lastSolution w w']
      epochs_return [of t rnd epoch lastSolution w w']
    by blast
qed


lemma ex_poll:
  "poll (exTrainer n) w
     = (n \<le> polls w, emit (PollShouldStop (n \<le> polls w)) (w\<lparr>polls := polls w + 1\<rparr>))"
  by (simp add: poll_def exTrainer_def Let_def)

theorem C8_cancellation_witness:
  "fst (poll (exTrainer 0) exWorld)
   \<and> runMiniBatch (exTrainer 0) 0 0 [()] None exWorld = Some (Return (snd (poll (exTrainer 0) exWorld)))
   \<and> \<not> fst (poll (exTrainer 1) exWorld)
   \<and> Step (exTrainer 1) (exSolver0, exBatchStart)
       = Some (True, exSolver1, emit (LogCGIteration (2 / 3) (- (4 / 3))) (emit (LogCGStart 0 0) exBatchStart))
   \<and> fst (poll (exTrainer 1) (emit (LogCGIteration (2 / 3) (- (4 / 3))) (emit (LogCGStart 0 0) exBatchStart)))
   \<and> cgLoop (exTrainer 1) (exSolver0, exBatchStart) = Some (Return exStopped)
   \<and> runMiniBatch (exTrainer 1) 0 0 [()] None exWorld = Some (Return exStopped)
   \<and> adjusts exStopped = adjusts exWorld \<and> vars exStopped = vars exWorld
   \<and> batches (exTrainer 1) [()] 0 0 0 None exWorld = Some (Return exStopped)
   \<and> Train (\<lambda>epoch samples. samples) (exTrainer 1) exWorld = Some exStopped"
proof -
  let ?w1 = "emit (LogCGIteration (2 / 3) (- (4 / 3))) (emit (LogCGStart 0 0) exBatchStart)"
  let ?w2 = "emit CallMakeObjective
               ((emit (LogNewMiniBatch 0 0) (snd (poll (exTrainer 1) exWorld)))\<lparr>learner := ()\<rparr>)"
  note first = C8_cancellation [of "exTrainer 0" exWorld 0 0 "[()]" None]
  note second = C8_cancellation [of "exTrainer 1" exWorld 0 0 "[()]" None "(exSolver0, exBatchStart)"
      exSolver1 ?w1 exCGObjective "()" exStopped 0 "[()]" "\<lambda>epoch samples. samples"]
  have p0: "fst (poll (exTrainer 0) exWorld)"
    by (simp add: ex_poll)
  have p1: "\<not> fst (poll (exTrainer 1) exWorld)"
    by (simp add: ex_poll exWorld_def)
  have st: "Step (exTrainer 1) (exSolver0, exBatchStart) = Some (True, exSolver1, ?w1)"
    by (rule ex_Step1) (simp add: exBatchStart_def)
  have p2: "fst (poll (exTrainer 1) ?w1)"
    by (simp add: ex_poll exBatchStart_def emit_def)
  have w1: "snd (poll (exTrainer 1) ?w1) = exStopped"
    by (simp add: ex_poll exBatchStart_def exStopped_def emit_def)
  have w2: "?w2 = exBatchStart"
    by (simp add: ex_poll exBatchStart_def exWorld_def emit_def)
  have mk: "MakeObjective (Learner (exTrainer 1)) (learner exWorld) (vars exWorld) = (exCGObjective, ())"
    by (simp add: exTrainer_def exTLearner_def)
  have sub: "Subset [()] 0 (0 + (if BatchSize (exTrainer 1) > int (length [()]) - 0
                                   then int (length [()]) - 0 else BatchSize (exTrainer 1))) = Some [()]"
    by (simp add: Subset_def exTrainer_def)
  have len: "(0::int) < int (length [()])"
    by simp
  have "cgLoop (exTrainer 1) (exSolver0, exBatchStart) = Some (Return (snd (poll (exTrainer 1) ?w1)))"
    using second st p2 by blast
  then have loop: "cgLoop (exTrainer 1) (exSolver0, exBatchStart) = Some (Return exStopped)"
    by (simp only: w1)
  then have "cgLoop (exTrainer 1) (newSolver exCGObjective [()] None, ?w2) = Some (Return exStopped)"
    by (simp only: w2 exSolver0_def)
  with second p1 mk have run: "runMiniBatch (exTrainer 1) 0 0 [()] None exWorld = Some (Return exStopped)"
    by blast
  with second have same: "adjusts exStopped = adjusts exWorld \<and> vars exStopped = vars exWorld"
    by blast
  from second sub len run
  have inner: "batches (exTrainer 1) [()] 0 0 0 None exWorld = Some (Return exStopped)"
    by blast
  have "Samples (exTrainer 1) = [()]"
    by (simp add: exTrainer_def)
  with inner have "batches (exTrainer 1) ((\<lambda>epoch samples. samples) 0 (Samples (exTrainer 1))) 0 0 0 None exWorld
                     = Some (Return exStopped)"
    by simp
  with second have "epochs (\<lambda>epoch samples. samples) (exTrainer 1) 0 None exWorld = Some exStopped"
    by blast
  then have outer: "Train (\<lambda>epoch samples. samples) (exTrainer 1) exWorld = Some exStopped"
    by (simp only: Train_def)
  from first p0
  have stop0: "runMiniBatch (exTrainer 0) 0 0 [()] None exWorld = Some (Return (snd (poll (exTrainer 0) exWorld)))"
    by blast
  show ?thesis
    using p0 stop0 p1 st p2 loop run same inner outer by blast
qed

section \<open>Checkpoints\<close>








lemma Best_appends:
  "Best c = Some (d, c') \<Longrightarrow>
     c' = (if justBacktracked c then c
           else c\<lparr>backtrackDeltas := backtrackDeltas c @ [deref (Solution c)],
                  backtrackValues := backtrackValues c
                    @ [Objective (cgObjective c) (deref (Solution c)) (cgSamples c)],
                  justBacktracked := True\<rparr>)"
  by (auto simp: Best_def Let_def split: option.splits if_splits)



lemma ex_cgLoop: "cgLoop (exTrainer 5) (exSolver0, exBatchStart) = Some (Next (exSolver2, exDone))"
proof -
  let ?t = "exTrainer 5"
  let ?w1 = "emit (LogCGIteration (2 / 3) (- (4 / 3))) (emit (LogCGStart 0 0) exBatchStart)"
  let ?w2 = "emit (LogCGIteration (3 / 4) (- (3 / 2))) (snd (poll ?t ?w1))"
  have st1: "Step ?t (exSolver0, exBatchStart) = Some (True, exSolver1, ?w1)"
    by (rule ex_Step1) (simp add: exBatchStart_def)
  have p1: "\<not> fst (poll ?t ?w1)"
    by (simp add: ex_poll exBatchStart_def emit_def)
  have st2: "Step ?t (exSolver1, snd (poll ?t ?w1)) = Some (True, exSolver2, ?w2)"
    by (rule ex_Step2)
  have p2: "\<not> fst (poll ?t ?w2)"
    by (simp add: ex_poll exBatchStart_def emit_def)
  have st3: "Step ?t (exSolver2, snd (poll ?t ?w2)) = Some (False, exSolver2, snd (poll ?t ?w2))"
    by (rule ex_Step3)
  have w: "snd (poll ?t ?w2) = exDone"
    by (simp add: ex_poll exBatchStart_def exDone_def emit_def)
  have "cgLoop ?t (exSolver0, exBatchStart) = cgLoop ?t (exSolver1, snd (poll ?t ?w1))"
    by (rule cgLoop_continue [OF st1 p1])
  also have "\<dots> = cgLoop ?t (exSolver2, snd (poll ?t ?w2))"
    by (rule cgLoop_continue [OF st2 p2])
  also have "\<dots> = Some (Next (exSolver2, snd (poll ?t ?w2)))"
    by (rule cgLoop_done [OF st3])
  finally show ?thesis
    by (simp only: w)
qed

lemma ex_runMiniBatch:
  "runMiniBatch (exTrainer 5) 0 0 [()] None exWorld = Some (Next (Some [(0, [1, 1 / 2])], exCommitted))"
proof -
  let ?t = "exTrainer 5"
  have p: "\<not> fst (poll ?t exWorld)"
    by (simp add: ex_poll exWorld_def)
  have mk: "MakeObjective (Learner ?t) (learner exWorld) (vars exWorld) = (exCGObjective, ())"
    by (simp add: exTrainer_def exTLearner_def)
  have w2: "exBatchStart = emit CallMakeObjective
              ((emit (LogNewMiniBatch 0 0) (snd (poll ?t exWorld)))\<lparr>learner := ()\<rparr>)"
    by (simp add: ex_poll exBatchStart_def exWorld_def emit_def)
  have loop: "cgLoop ?t (newSolver exCGObjective [()] None, exBatchStart) = Some (Next (exSolver2, exDone))"
    using ex_cgLoop by (simp only: exSolver0_def)
  have sol: "Solution exSolver2 = Some [(0, [1, 1 / 2])]"
    by (simp add: exSolver2_def)
  have adj: "Adjust (Learner ?t) d ls s l vs = ((), AddToVars d vs)" for d ls s l vs
    by (simp add: exTrainer_def exTLearner_def)
  have add: "AddToVars [(0, [2 / 3, 2 / 3])] (\<lambda>variable. [0, 0]) = (\<lambda>variable. [0, 0])(0 := [2 / 3, 2 / 3])"
    by (simp add: AddToVars_def)
  show ?thesis
    unfolding runMiniBatch_go [OF p mk w2] loop
    by (simp add: ex_Best sol adj) (simp add: exDone_def exCommitted_def emit_def add)
qed


section \<open>The warm start\<close>

lemma map_of_zero_fold:
  "map_of (fold (\<lambda>param delta. AList.update param (f param) delta) params d0) param
     = (if param \<in> set params then Some (f param) else map_of d0 param)"
  by (induction params arbitrary: d0) (auto simp: update_conv')

lemma map_of_zeroDelta:
  "map_of (zeroDelta t w) param
     = (if param \<in> set (Parameters (Learner t) (learner w))
        then Some (replicate (length (vars w param)) 0) else None)"
  by (simp add: zeroDelta_def map_of_zero_fold)

lemma Best_Solution: "Best c = Some (d, c') \<Longrightarrow> Solution c' = Solution c"
  by (drule Best_appends) (simp split: if_splits)

lemma runMiniBatch_next:
  assumes "runMiniBatch t epoch miniBatch subSet lastSolution w = Some (Next (lastSolution', w'))"
  shows "\<exists>obj l c wc useDelta c'.
           MakeObjective (Learner t) (learner w) (vars w) = (obj, l)
           \<and> cgLoop t (newSolver obj subSet lastSolution,
                        emit CallMakeObjective
                          ((emit (LogNewMiniBatch epoch miniBatch) (snd (poll t w)))\<lparr>learner := l\<rparr>))
               = Some (Next (c, wc))
           \<and> Best c = Some (useDelta, c')
           \<and> lastSolution' = Solution c
           \<and> last (trace w') = CallAdjust useDelta (Solution c) subSet"
proof (cases "fst (poll t w)")
  case True
  with assms show ?thesis
    by (simp add: runMiniBatch_stop)
next
  case False
  obtain obj l where mk: "MakeObjective (Learner t) (learner w) (vars w) = (obj, l)"
    by (cases "MakeObjective (Learner t) (learner w) (vars w)")
  let ?w2 = "emit CallMakeObjective
               ((emit (LogNewMiniBatch epoch miniBatch) (snd (poll t w)))\<lparr>learner := l\<rparr>)"
  from assms obtain c wc where loop: "cgLoop t (newSolver obj subSet lastSolution, ?w2) = Some (Next (c, wc))"
    unfolding runMiniBatch_go [OF False mk refl]
    by (auto split: option.splits flow.splits)
  from assms obtain useDelta c' where best: "Best c = Some (useDelta, c')"
    unfolding runMiniBatch_go [OF False mk refl] loop
    by (auto split: option.splits)
  from assms have "lastSolution' = Solution c'"
    and "last (trace w') = CallAdjust useDelta (Solution c') subSet"
    unfolding runMiniBatch_go [OF False mk refl] loop
    by (auto simp: best emit_def)
  with Best_Solution [OF best] mk loop best show ?thesis
    by auto
qed

lemma batches_next:
  assumes "i < int (length shuffled)"
    and "Subset shuffled i (i + (if BatchSize t > int (length shuffled) - i
                                  then int (length shuffled) - i else BatchSize t)) = Some subSet"
    and "runMiniBatch t epoch miniBatch subSet lastSolution w = Some (Next (lastSolution', w'))"
  shows "batches t shuffled epoch miniBatch i lastSolution w
           = batches t shuffled epoch (miniBatch + 1) (i + BatchSize t) lastSolution' w'"
  using assms by (subst batches.simps) (simp add: Let_def)

lemma epochs_next:
  assumes "batches t (rnd epoch (Samples t)) epoch 0 0 lastSolution w = Some (Next (lastSolution', w'))"
  shows "epochs rnd t epoch lastSolution w = epochs rnd t (epoch + 1) lastSolution' w'"
  using assms by (subst epochs.simps) (simp add: Let_def)

text \<open>
  C3, amended. At the initialisation of the solver that \<^verbatim>\<open>Train\<close> makes for a mini-batch,
  the initial solution \<open>x0\<close> is the solution handed to the solver if there is one, and else
  the zero delta, which maps each parameter of the learner to a zero vector of the length of
  that parameter; the residual is \<open>- QuadGrad x0\<close>, the search direction is that residual,
  \<open>|r|^2\<close> and the curvature product are those of that residual, and the starting objective is
  the true objective at the empty delta. The solution handed over is the \<^verbatim>\<open>Solution\<close> of
  the previous mini-batch's solver when its loop ended, the final iterate, which \<^verbatim>\<open>Train\<close>
  passes to \<^verbatim>\<open>Adjust\<close> as its second argument beside the delta of \<^verbatim>\<open>Best\<close>; it goes to
  the next mini-batch of the epoch and on to the next epoch.
\<close>

theorem C3_initial_state:
  fixes t :: "('w, 's) Trainer" and obj :: "'s CGObjective" and subSet :: "'s list"
    and lastSolution :: "ConstParamDelta option" and w :: "('w, 's) World"
  defines "x0 \<equiv> (case lastSolution of None \<Rightarrow> zeroDelta t w | Some d \<Rightarrow> d)"
  defines "r0 \<equiv> scale (- 1) (QuadGrad obj x0 subSet)"
  shows "initializeIfNeeded t (newSolver obj subSet lastSolution, w)
           = ((newSolver obj subSet lastSolution)
                \<lparr>Solution := Some x0, residual := Some r0, projectedResidual := r0,
                 residualMag2 := magSquared r0, startObjective := Objective obj [] subSet,
                 hessianProduct := fst (QuadHessian obj r0 x0 subSet)\<rparr>,
              emit (LogCGStart (snd (QuadHessian obj r0 x0 subSet)) (Objective obj [] subSet)) w)
         \<and> (\<forall>param. map_of (zeroDelta t w) param
               = (if param \<in> set (Parameters (Learner t) (learner w))
                  then Some (replicate (length (vars w param)) 0) else None))
         \<and> (runMiniBatch t epoch miniBatch subSet lastSolution w = Some (Next (lastSolution', w')) \<longrightarrow>
              (\<exists>obj' l c wc useDelta c'.
                 MakeObjective (Learner t) (learner w) (vars w) = (obj', l)
                 \<and> cgLoop t (newSolver obj' subSet lastSolution,
                              emit CallMakeObjective
                                ((emit (LogNewMiniBatch epoch miniBatch) (snd (poll t w)))
                                   \<lparr>learner := l\<rparr>))
                     = Some (Next (c, wc))
                 \<and> Best c = Some (useDelta, c')
                 \<and> lastSolution' = Solution c
                 \<and> last (trace w') = CallAdjust useDelta (Solution c) subSet))
         \<and> (i < int (length shuffled)
              \<and> Subset shuffled i (i + (if BatchSize t > int (length shuffled) - i
                                           then int (length shuffled) - i else BatchSize t))
                  = Some subSet
              \<and> runMiniBatch t epoch miniBatch subSet lastSolution w = Some (Next (lastSolution', w')) \<longrightarrow>
              batches t shuffled epoch miniBatch i lastSolution w
                = batches t shuffled epoch (miniBatch + 1) (i + BatchSize t) lastSolution' w')
         \<and> (batches t (rnd epoch (Samples t)) epoch 0 0 lastSolution w
                = Some (Next (lastSolution', w')) \<longrightarrow>
              epochs rnd t epoch lastSolution w = epochs rnd t (epoch + 1) lastSolution' w')"
proof -
  have init: "initializeIfNeeded t (newSolver obj subSet lastSolution, w)
           = ((newSolver obj subSet lastSolution)
                \<lparr>Solution := Some x0, residual := Some r0, projectedResidual := r0,
                 residualMag2 := magSquared r0, startObjective := Objective obj [] subSet,
                 hessianProduct := fst (QuadHessian obj r0 x0 subSet)\<rparr>,
              emit (LogCGStart (snd (QuadHessian obj r0 x0 subSet)) (Objective obj [] subSet)) w)"
    by (rule initializeIfNeeded_fresh) (simp_all add: newSolver_def x0_def r0_def)
  show ?thesis
    using init map_of_zeroDelta [of t w]
      runMiniBatch_next [of t epoch miniBatch subSet lastSolution w lastSolution' w']
      batches_next [of i shuffled t subSet epoch miniBatch lastSolution w lastSolution' w']
      epochs_next [of t rnd epoch lastSolution w lastSolution' w']
    by blast
qed

text \<open>
  C3, as stated: the initial solution is the delta that \<^verbatim>\<open>Best\<close> returned for the previous
  mini-batch and \<^verbatim>\<open>Adjust\<close> committed. \<^verbatim>\<open>Train\<close> carries \<^verbatim>\<open>solver.Solution\<close>, the final
  iterate, to the next solver. In the example run the first mini-batch commits the
  checkpoint \<open>{0: [2/3, 2/3]}\<close> of the first step, whose true objective is the lower one,
  and hands \<open>{0: [1, 1/2]}\<close>, the iterate after the second step, to the next mini-batch,
  whose solver starts from it.
\<close>

theorem C3_warm_start_is_final_iterate:
  "runMiniBatch (exTrainer 5) 0 0 [()] None exWorld
     = Some (Next (Some [(0, [1, 1 / 2])], exCommitted))
   \<and> last (trace exCommitted) = CallAdjust [(0, [2 / 3, 2 / 3])] (Some [(0, [1, 1 / 2])]) [()]
   \<and> batches (exTrainer 5) [()] 0 0 0 None exWorld
       = batches (exTrainer 5) [()] 0 1 1 (Some [(0, [1, 1 / 2])]) exCommitted
   \<and> Solution (fst (initializeIfNeeded (exTrainer 5)
                      (newSolver exCGObjective [()] (Some [(0, [1, 1 / 2])]), exCommitted)))
       = Some [(0, [1, 1 / 2])]
   \<and> [(0, [1, 1 / 2])] \<noteq> [(0::nat, [2 / 3, 2 / 3 :: real])]"
proof -
  have sub: "Subset [()] 0 (0 + (if BatchSize (exTrainer 5) > int (length [()]) - 0
                                   then int (length [()]) - 0 else BatchSize (exTrainer 5))) = Some [()]"
    by (simp add: Subset_def exTrainer_def)
  have "batches (exTrainer 5) [()] 0 0 0 None exWorld
       = batches (exTrainer 5) [()] 0 (0 + 1) (0 + BatchSize (exTrainer 5)) (Some [(0, [1, 1 / 2])]) exCommitted"
    by (rule batches_next [OF _ sub ex_runMiniBatch]) simp
  then have nxt: "batches (exTrainer 5) [()] 0 0 0 None exWorld
       = batches (exTrainer 5) [()] 0 1 1 (Some [(0, [1, 1 / 2])]) exCommitted"
    by (simp add: exTrainer_def)
  have init: "Solution (fst (initializeIfNeeded (exTrainer 5)
                      (newSolver exCGObjective [()] (Some [(0, [1, 1 / 2])]), exCommitted)))
       = Some [(0, [1, 1 / 2])]"
    by (simp add: initializeIfNeeded_def newSolver_def Let_def split_beta)
  show ?thesis
    using ex_runMiniBatch nxt init by (simp add: exCommitted_def)
qed

theorem C3_initial_state_witness:
  "initializeIfNeeded (exTrainer 5) (newSolver exCGObjective [()] None, exBatchStart)
     = (exInit, emit (LogCGStart 0 0) exBatchStart)
   \<and> Solution exInit = Some [(0, [0, 0])] \<and> residual exInit = Some [(0, [1, 1])]
   \<and> projectedResidual exInit = [(0, [1, 1])] \<and> startObjective exInit = 0
   \<and> QuadGrad exCGObjective [(0, [0, 0])] [()] = [(0, [- 1, - 1])]
   \<and> map_of (zeroDelta (exTrainer 5) exBatchStart) 0 = Some [0, 0]
   \<and> runMiniBatch (exTrainer 5) 0 0 [()] None exWorld
       = Some (Next (Some [(0, [1, 1 / 2])], exCommitted))
   \<and> (\<exists>c wc useDelta c'.
         cgLoop (exTrainer 5) (newSolver exCGObjective [()] None, exBatchStart) = Some (Next (c, wc))
         \<and> Best c = Some (useDelta, c') \<and> Some [(0, [1, 1 / 2])] = Solution c
         \<and> last (trace exCommitted) = CallAdjust useDelta (Solution c) [()])
   \<and> batches (exTrainer 5) [()] 0 0 0 None exWorld
       = batches (exTrainer 5) [()] 0 1 1 (Some [(0, [1, 1 / 2])]) exCommitted
   \<and> initializeIfNeeded (exTrainer 5)
         (newSolver exCGObjective [()] (Some [(0, [1, 1 / 2])]), exCommitted)
       = ((newSolver exCGObjective [()] (Some [(0, [1, 1 / 2])]))
            \<lparr>Solution := Some [(0, [1, 1 / 2])], residual := Some [(0, [0, 0])],
             projectedResidual := [(0, [0, 0])], residualMag2 := 0, startObjective := 0,
             hessianProduct := [(0, [0, 0])]\<rparr>,
          emit (LogCGStart (- (3 / 2)) 0) exCommitted)"
proof -
  note first = C3_initial_state [where t = "exTrainer 5" and obj = exCGObjective
      and subSet = "[()]" and lastSolution = None and w = exBatchStart]
  note run = C3_initial_state [where t = "exTrainer 5" and obj = exCGObjective
      and subSet = "[()]" and lastSolution = None and w = exWorld and epoch = 0 and miniBatch = 0
      and lastSolution' = "Some [(0, [1, 1 / 2])]" and w' = exCommitted and i = 0
      and shuffled = "[()]" and rnd = "\<lambda>epoch samples. samples"]
  note second = C3_initial_state [where t = "exTrainer 5" and obj = exCGObjective
      and subSet = "[()]" and lastSolution = "Some [(0, [1, 1 / 2])]" and w = exCommitted]
  have zero: "map_of (zeroDelta (exTrainer 5) exBatchStart) 0 = Some [0, 0]"
    using first by (simp add: exTrainer_def exTLearner_def exBatchStart_def)
  have init1: "initializeIfNeeded (exTrainer 5) (newSolver exCGObjective [()] None, exBatchStart)
     = (exInit, emit (LogCGStart 0 0) exBatchStart)"
    using ex_init [of exBatchStart 5] by (simp add: exSolver0_def exBatchStart_def)
  have init2: "initializeIfNeeded (exTrainer 5)
         (newSolver exCGObjective [()] (Some [(0, [1, 1 / 2])]), exCommitted)
       = ((newSolver exCGObjective [()] (Some [(0, [1, 1 / 2])]))
            \<lparr>Solution := Some [(0, [1, 1 / 2])], residual := Some [(0, [0, 0])],
             projectedResidual := [(0, [0, 0])], residualMag2 := 0, startObjective := 0,
             hessianProduct := [(0, [0, 0])]\<rparr>,
          emit (LogCGStart (- (3 / 2)) 0) exCommitted)"
    using second by (simp add: ex_defs algebra_defs)
  have mk: "MakeObjective (Learner (exTrainer 5)) (learner exWorld) (vars exWorld) = (exCGObjective, ())"
    by (simp add: exTrainer_def exTLearner_def)
  have w2: "emit CallMakeObjective
              ((emit (LogNewMiniBatch 0 0) (snd (poll (exTrainer 5) exWorld)))\<lparr>learner := ()\<rparr>)
            = exBatchStart"
    by (simp add: ex_poll exBatchStart_def exWorld_def emit_def)
  from run ex_runMiniBatch
  have "\<exists>obj' l c wc useDelta c'.
          MakeObjective (Learner (exTrainer 5)) (learner exWorld) (vars exWorld) = (obj', l)
          \<and> cgLoop (exTrainer 5) (newSolver obj' [()] None,
                       emit CallMakeObjective
                         ((emit (LogNewMiniBatch 0 0) (snd (poll (exTrainer 5) exWorld)))\<lparr>learner := l\<rparr>))
              = Some (Next (c, wc))
          \<and> Best c = Some (useDelta, c')
          \<and> Some [(0, [1, 1 / 2])] = Solution c
          \<and> last (trace exCommitted) = CallAdjust useDelta (Solution c) [()]"
    by blast
  then have flow: "\<exists>c wc useDelta c'.
         cgLoop (exTrainer 5) (newSolver exCGObjective [()] None, exBatchStart) = Some (Next (c, wc))
         \<and> Best c = Some (useDelta, c') \<and> Some [(0, [1, 1 / 2])] = Solution c
         \<and> last (trace exCommitted) = CallAdjust useDelta (Solution c) [()]"
    unfolding mk by (simp add: w2)
  have sub: "Subset [()] 0 (0 + (if BatchSize (exTrainer 5) > int (length [()]) - 0
                                   then int (length [()]) - 0 else BatchSize (exTrainer 5))) = Some [()]"
    by (simp add: Subset_def exTrainer_def)
  have len: "(0::int) < int (length [()])"
    by simp
  from run sub len ex_runMiniBatch
  have "batches (exTrainer 5) [()] 0 0 0 None exWorld
       = batches (exTrainer 5) [()] 0 (0 + 1) (0 + BatchSize (exTrainer 5)) (Some [(0, [1, 1 / 2])]) exCommitted"
    by blast
  then have nxt: "batches (exTrainer 5) [()] 0 0 0 None exWorld
       = batches (exTrainer 5) [()] 0 1 1 (Some [(0, [1, 1 / 2])]) exCommitted"
    by (simp add: exTrainer_def)
  have fields: "Solution exInit = Some [(0, [0, 0])]" "residual exInit = Some [(0, [1, 1])]"
    "projectedResidual exInit = [(0, [1, 1])]" "startObjective exInit = 0"
    "QuadGrad exCGObjective [(0, [0, 0])] [()] = [(0, [- 1, - 1])]"
    by (simp_all add: exInit_def ex_defs)
  show ?thesis
    using init1 fields zero ex_runMiniBatch flow nxt init2 by blast
qed

end
